theory Spec2Isabelle
  imports Main "HOL-Library.AList"
begin

section \<open>Python values, dictionaries and exceptions\<close>

text \<open>
  The wrapper in \<^verbatim>\<open>src/bibt/gcp/bq/classes.py\<close> moves Python values between its
  caller and the BigQuery SDK. A value is a constant, a list, a dictionary, a table
  returned by the handle, or some other SDK object, which the wrapper never looks into.
  A dictionary keeps its keys in insertion order and is an association list;
  \<open>d[k] = v\<close> is \<open>AList.update k v d\<close>, which replaces the value of an existing key
  where it stands and appends a new key at the end.
\<close>

datatype pyval =
    PNone
  | PBool bool
  | PInt int
  | PStr string
  | PList "pyval list"
  | PDict "(string \<times> pyval) list"
  | PTable bq_table
  | PObject string "(string \<times> pyval) list"
and bq_table = Table (table_id: string) (schema: pyval)

type_synonym pydict = "(string \<times> pyval) list"

text \<open>
  Exceptions. Every class here derives from Python's \<open>Exception\<close>, so the handler
  \<open>except Exception\<close> of line 120 catches each of them; interpreter signals that are
  not an \<open>Exception\<close> (a keyboard interrupt) are outside the model. \<open>BadRequest\<close>
  stands for \<open>google.api_core.exceptions.BadRequest\<close> and its subclasses, the errors
  that \<open>except google_exceptions.BadRequest\<close> of line 57 catches; \<open>OtherException n\<close>
  is any other class, named \<open>n\<close>.
\<close>

datatype exc_class = BadRequest | SystemError | TypeError | OtherException string

datatype py_exception = PyExc (exc_class: exc_class) (exc_str: string)

fun class_name :: "exc_class \<Rightarrow> string" where
  "class_name BadRequest = ''BadRequest''"
| "class_name SystemError = ''SystemError''"
| "class_name TypeError = ''TypeError''"
| "class_name (OtherException n) = n"

section \<open>The SDK, as a parameter\<close>

text \<open>
  The SDK is not part of the repository. Its constants, its constructors and the methods
  of the handle \<open>self._client\<close> are the fields of a record, and every theorem holds for
  every such record. A method either raises or returns. A job is what the wrapper uses of
  it: what \<open>job.result()\<close> does and the value of \<open>job.errors\<close>. A result set is what the
  wrapper uses of it: what \<open>len(results)\<close> gives and the rows that iterating it yields,
  each row given by the pairs of \<open>row.items()\<close>. The SDK's own result set, the
  \<open>RowIterator\<close>, has a property \<open>total_rows\<close> and defines no \<open>__len__\<close>: for it,
  \<open>len(results)\<close> raises a \<open>TypeError\<close>.
\<close>

type_synonym row = "(string \<times> pyval) list"

record row_iterator =
  ri_len :: "py_exception + nat"
  ri_rows :: "row list"

record 'r job =
  job_result :: "py_exception + 'r"
  job_errors :: pyval

record sdk =
  WRITE_APPEND :: pyval
  WRITE_TRUNCATE :: pyval
  NEWLINE_DELIMITED_JSON :: pyval
  bigquery_LoadJobConfig :: "pydict \<Rightarrow> py_exception + pyval"
  bigquery_QueryJobConfig :: "pydict \<Rightarrow> py_exception + pyval"
  client_get_table :: "string \<Rightarrow> py_exception + bq_table"
  client_schema_from_json :: "string \<Rightarrow> py_exception + pyval"
  client_load_table_from_uri :: "pydict \<Rightarrow> py_exception + unit job"
  client_query :: "string \<Rightarrow> pyval \<Rightarrow> py_exception + row_iterator job"

section \<open>The state: dictionaries by reference, the log, the calls made\<close>

text \<open>
  The wrapper assigns into the dictionaries it is given, so a dictionary argument is an
  address into a store. The default values \<open>{}\<close> of lines 76, 77 and 159 are three
  dictionaries made once, when the class body is executed; a call that leaves the
  argument out (\<open>None\<close> below) gets that same dictionary each time. The state also keeps
  the lines sent to the logger and the calls made to the SDK, in order.
\<close>

type_synonym addr = nat

datatype level = DEBUG | INFO | WARNING | ERROR

datatype log_part = Lit string | Fmt pyval

type_synonym log_entry = "level \<times> log_part list"

datatype sdk_call =
    GetTable string
  | SchemaFromJson string
  | NewLoadJobConfig pydict
  | LoadTableFromUri pydict
  | NewQueryJobConfig pydict
  | Query string pyval
  | JobResult

record state =
  heap :: "addr \<Rightarrow> pydict"
  logged :: "log_entry list"
  calls :: "sdk_call list"

definition upload_gcs_json_default_config_params :: addr where
  "upload_gcs_json_default_config_params = 0"

definition upload_gcs_json_default_job_params :: addr where
  "upload_gcs_json_default_job_params = 1"

definition query_default_query_config :: addr where
  "query_default_query_config = 2"

definition arg_or_default :: "addr option \<Rightarrow> addr \<Rightarrow> addr" where
  "arg_or_default arg dflt = (case arg of None \<Rightarrow> dflt | Some a \<Rightarrow> a)"

definition dict_setitem :: "addr \<Rightarrow> string \<Rightarrow> pyval \<Rightarrow> state \<Rightarrow> state" where
  "dict_setitem a k v st = st\<lparr>heap := (heap st)(a := AList.update k v (heap st a))\<rparr>"

definition dict_contains :: "string \<Rightarrow> pydict \<Rightarrow> bool" where
  "dict_contains k d \<longleftrightarrow> k \<in> fst ` set d"

definition log_msg :: "level \<Rightarrow> log_part list \<Rightarrow> state \<Rightarrow> state" where
  "log_msg l m st = st\<lparr>logged := logged st @ [(l, m)]\<rparr>"

definition sdk_called :: "sdk_call \<Rightarrow> state \<Rightarrow> state" where
  "sdk_called c st = st\<lparr>calls := calls st @ [c]\<rparr>"

text \<open>The calls made to the SDK between two states of one run.\<close>

definition new_calls :: "state \<Rightarrow> state \<Rightarrow> sdk_call list" where
  "new_calls st st' = drop (length (calls st)) (calls st')"

text \<open>\<open>dict(pairs)\<close>: the pairs are stored one after the other.\<close>

definition dict_of_items :: "(string \<times> pyval) list \<Rightarrow> pydict" where
  "dict_of_items items = foldl (\<lambda>d (k, v). AList.update k v d) [] items"

section \<open>The Client\<close>

subsection \<open>\<open>get_schema\<close>, lines 32 to 46\<close>

definition get_schema ::
  "sdk \<Rightarrow> string \<Rightarrow> string \<Rightarrow> string \<Rightarrow> state \<Rightarrow> (py_exception + pyval) \<times> state" where
  "get_schema sdk bq_project dataset table st =
     (let table_ref = bq_project @ ''.'' @ dataset @ ''.'' @ table;
          st1 = sdk_called (GetTable table_ref) st
      in case client_get_table sdk table_ref of
           Inl e \<Rightarrow> (Inl e, st1)
         | Inr t \<Rightarrow> (Inr (schema t), st1))"

subsection \<open>\<open>_monitor_job\<close>, lines 48 to 62\<close>

definition monitor_job :: "'r job \<Rightarrow> state \<Rightarrow> (py_exception + unit) \<times> state" where
  "monitor_job job st =
     (let st1 = sdk_called JobResult st
      in case job_result job of
           Inr _ \<Rightarrow> (Inr (), st1)
         | Inl e \<Rightarrow>
             if exc_class e = BadRequest
             then (Inl (PyExc SystemError
                     ''Import failed with BadRequest exception. See error data in logs.''),
                   log_msg ERROR [Fmt (job_errors job)] st1)
             else (Inl e, st1))"

subsection \<open>\<open>_submit_load_job\<close>, lines 148 to 157\<close>

definition submit_load_job ::
  "sdk \<Rightarrow> bool \<Rightarrow> pydict \<Rightarrow> state \<Rightarrow> (py_exception + unit) \<times> state" where
  "submit_load_job sdk await_result kwargs st =
     (let st1 = sdk_called (LoadTableFromUri kwargs) st
      in case client_load_table_from_uri sdk kwargs of
           Inl e \<Rightarrow> (Inl e, st1)
         | Inr job \<Rightarrow>
             if await_result
             then (case monitor_job job st1 of
                     (Inl e, st2) \<Rightarrow> (Inl e, st2)
                   | (Inr _, st2) \<Rightarrow> (Inr (), log_msg INFO [Lit ''Upload complete.''] st2))
             else (Inr (), st1))"

subsection \<open>\<open>_build_load_job_config\<close>, lines 145 and 146\<close>

definition build_load_job_config ::
  "sdk \<Rightarrow> pydict \<Rightarrow> state \<Rightarrow> (py_exception + pyval) \<times> state" where
  "build_load_job_config sdk kwargs st =
     (bigquery_LoadJobConfig sdk kwargs, sdk_called (NewLoadJobConfig kwargs) st)"

subsection \<open>\<open>upload_gcs_json\<close>, lines 64 to 143\<close>

text \<open>
  Lines 107 to 131 assemble the configuration in the dictionary \<open>config_params\<close>. The
  schema path counts when it is neither \<open>None\<close> nor the empty string.
\<close>

definition upload_gcs_json_config ::
  "sdk \<Rightarrow> bool \<Rightarrow> bool \<Rightarrow> bool \<Rightarrow> string option \<Rightarrow> addr \<Rightarrow> state \<Rightarrow> state" where
  "upload_gcs_json_config sdk append_flag ignore_unknown autodetect_schema schema_json_path
       config_params st =
     (let st_schema =
            (case schema_json_path of
               None \<Rightarrow> st
             | Some path \<Rightarrow>
                 if path = [] then st
                 else
                   let st1 = (if autodetect_schema
                              then log_msg WARNING
                                [Lit (''You currently have \"autodetect_schema\" set to True while ''
                                   @ ''also specifying a schema. Consider setting \"autodetect_schema\" ''
                                   @ ''to False to avoid type inference conflicts.'')] st
                              else st);
                       st2 = log_msg DEBUG [Lit ''Trying to build schema...''] st1;
                       st3 = sdk_called (SchemaFromJson path) st2
                   in case client_schema_from_json sdk path of
                        Inr s \<Rightarrow>
                          log_msg INFO [Lit ''Schema built.'']
                            (dict_setitem config_params ''schema'' s st3)
                      | Inl e \<Rightarrow>
                          log_msg WARNING
                            [Lit (''Failed to build schema: '' @ class_name (exc_class e)
                                  @ '': '' @ exc_str e)] st3);
          st_wd = (if append_flag
                   then dict_setitem config_params ''write_disposition'' (WRITE_APPEND sdk)
                          st_schema
                   else dict_setitem config_params ''write_disposition'' (WRITE_TRUNCATE sdk)
                          st_schema);
          st_sf = dict_setitem config_params ''source_format'' (NEWLINE_DELIMITED_JSON sdk)
                    st_wd;
          st_iu = dict_setitem config_params ''ignore_unknown_values'' (PBool ignore_unknown)
                    st_sf
      in dict_setitem config_params ''autodetect'' (PBool autodetect_schema) st_iu)"

text \<open>
  Lines 132 to 136 fill the dictionary \<open>job_params\<close>. A call \<open>f(**d)\<close> of a method
  raises \<open>TypeError\<close> when \<open>d\<close> has a key that the call binds already: \<open>self\<close> at
  lines 134 and 139, \<open>await_result\<close> at line 139.
\<close>

definition upload_gcs_json_job_params ::
  "sdk \<Rightarrow> string \<Rightarrow> string \<Rightarrow> addr \<Rightarrow> addr \<Rightarrow> state \<Rightarrow> (py_exception + unit) \<times> state" where
  "upload_gcs_json_job_params sdk source_uri table_ref config_params job_params st1 =
     (let st2 = dict_setitem job_params ''source_uris'' (PStr source_uri) st1;
          st3 = sdk_called (GetTable table_ref) st2
      in case client_get_table sdk table_ref of
           Inl e \<Rightarrow> (Inl e, st3)
         | Inr t \<Rightarrow>
             let st4 = dict_setitem job_params ''destination'' (PTable t) st3
             in if dict_contains ''self'' (heap st4 config_params)
                then (Inl (PyExc TypeError
                        (''Client._build_load_job_config() got multiple values for argument 'self''
                           @ [CHR 0x27])),
                      st4)
                else
                  (case build_load_job_config sdk (heap st4 config_params) st4 of
                     (Inl e, st5) \<Rightarrow> (Inl e, st5)
                   | (Inr cfg, st5) \<Rightarrow>
                       (Inr (), dict_setitem job_params ''job_config'' cfg st5)))"

text \<open>The whole method: lines 105 and 106, the two steps above, lines 137 to 143.\<close>

definition upload_gcs_json ::
  "sdk \<Rightarrow> string \<Rightarrow> string \<Rightarrow> string \<Rightarrow> string \<Rightarrow> string \<Rightarrow> bool \<Rightarrow> bool \<Rightarrow> bool \<Rightarrow>
   string option \<Rightarrow> bool \<Rightarrow> addr option \<Rightarrow> addr option \<Rightarrow> state \<Rightarrow>
   (py_exception + unit) \<times> state" where
  "upload_gcs_json sdk bucket_name blob_name bq_project dataset table append_flag ignore_unknown
       autodetect_schema schema_json_path await_result config_params_arg job_params_arg st =
     (let config_params = arg_or_default config_params_arg upload_gcs_json_default_config_params;
          job_params = arg_or_default job_params_arg upload_gcs_json_default_job_params;
          source_uri = ''gs://'' @ bucket_name @ ''/'' @ blob_name;
          table_ref = bq_project @ ''.'' @ dataset @ ''.'' @ table;
          st1 = upload_gcs_json_config sdk append_flag ignore_unknown autodetect_schema
                  schema_json_path config_params st
      in case upload_gcs_json_job_params sdk source_uri table_ref config_params job_params st1 of
           (Inl e, st6) \<Rightarrow> (Inl e, st6)
         | (Inr _, st6) \<Rightarrow>
             let st7 = log_msg INFO
                         [Lit (''Submitting job to upload ['' @ source_uri @ ''] to [''
                               @ table_ref @ '']...'')] st6;
                 st8 = log_msg DEBUG
                         [Lit ''BigQuery load job params: '',
                          Fmt (PDict (heap st7 job_params))] st7
             in if dict_contains ''await_result'' (heap st8 job_params)
                then (Inl (PyExc TypeError
                        (''Client._submit_load_job() got multiple values for keyword argument 'await_result''
                           @ [CHR 0x27])),
                      st8)
                else if dict_contains ''self'' (heap st8 job_params)
                then (Inl (PyExc TypeError
                        (''Client._submit_load_job() got multiple values for argument 'self''
                           @ [CHR 0x27])),
                      st8)
                else submit_load_job sdk await_result (heap st8 job_params) st8)"

subsection \<open>\<open>query\<close>, lines 159 to 189\<close>

text \<open>
  Lines 171 to 176 assemble the query configuration: the priority is written into the
  dictionary \<open>query_config\<close>, and a non-empty dictionary is turned into a configuration
  object, an empty one into \<open>None\<close>.
\<close>

definition query_build_config ::
  "sdk \<Rightarrow> addr \<Rightarrow> bool \<Rightarrow> state \<Rightarrow> (py_exception + pyval) \<times> state" where
  "query_build_config sdk query_config await_result st =
     (let st1 = (if \<not> await_result \<and> \<not> dict_contains ''priority'' (heap st query_config)
                 then dict_setitem query_config ''priority'' (PStr ''BATCH'') st
                 else st)
      in if heap st1 query_config \<noteq> []
         then (bigquery_QueryJobConfig sdk (heap st1 query_config),
               sdk_called (NewQueryJobConfig (heap st1 query_config)) st1)
         else (Inr PNone, st1))"

text \<open>Lines 183 to 189 wait for the rows and turn each of them into a dictionary.\<close>

definition query_results ::
  "row_iterator job \<Rightarrow> state \<Rightarrow> (py_exception + pydict list option) \<times> state" where
  "query_results query_job st5 =
     (let st6 = sdk_called JobResult st5
      in case job_result query_job of
           Inl e \<Rightarrow> (Inl e, st6)
         | Inr results \<Rightarrow>
             (case ri_len results of
                Inl e \<Rightarrow> (Inl e, st6)
              | Inr n \<Rightarrow>
                  let st7 = log_msg INFO
                              [Lit ''Iterating over '', Fmt (PInt (int n)),
                               Lit '' result rows...''] st6;
                      results_json = map dict_of_items (ri_rows results);
                      st8 = log_msg DEBUG [Lit ''Returning results as list of dicts.''] st7
                  in (Inr (Some results_json), st8)))"

text \<open>The whole method: the two steps above around lines 177 to 182.\<close>

definition query ::
  "sdk \<Rightarrow> string \<Rightarrow> addr option \<Rightarrow> bool \<Rightarrow> state \<Rightarrow>
   (py_exception + pydict list option) \<times> state" where
  "query sdk query_string query_config_arg await_result st =
     (let query_config = arg_or_default query_config_arg query_default_query_config
      in case query_build_config sdk query_config await_result st of
           (Inl e, st2) \<Rightarrow> (Inl e, st2)
         | (Inr config, st2) \<Rightarrow>
             let st3 = log_msg INFO [Lit (''Sending query: '' @ query_string)] st2;
                 st4 = log_msg DEBUG
                         [Lit ''Query job config: '', Fmt (PDict (heap st3 query_config))] st3;
                 st5 = sdk_called (Query query_string config) st4
             in case client_query sdk query_string config of
                  Inl e \<Rightarrow> (Inl e, st5)
                | Inr query_job \<Rightarrow>
                    if \<not> await_result
                    then (Inr None,
                          log_msg INFO
                            [Lit ''Not waiting for result of query, returning None.''] st5)
                    else query_results query_job st5)"

section \<open>Runs that start later\<close>

text \<open>
  The wrapper adds to the log and to the record of calls and never reads them. To compare
  two runs that differ in what came before, \<open>with_history l c st\<close> is the state \<open>st\<close>
  with the log lines \<open>l\<close> and the calls \<open>c\<close> put in front of its own, and \<open>fresh st\<close>
  is \<open>st\<close> with an empty log and no calls.
\<close>

definition with_history :: "log_entry list \<Rightarrow> sdk_call list \<Rightarrow> state \<Rightarrow> state" where
  "with_history l c st = st\<lparr>logged := l @ logged st, calls := c @ calls st\<rparr>"

definition fresh :: "state \<Rightarrow> state" where
  "fresh st = st\<lparr>logged := [], calls := []\<rparr>"

section \<open>Concrete inputs\<close>

text \<open>
  An SDK that knows one table, \<open>proj.ds.events\<close>, and one schema file, \<open>schema.json\<close>,
  accepts every configuration and every job, and answers every query with a result set
  of two rows that has no length, as the SDK's \<open>RowIterator\<close> has none. In
  the state, the caller holds a configuration dictionary at address 5 and a dictionary
  of job parameters at address 6, both with entries of their own under the keys that
  the wrapper writes; the three default dictionaries are empty.
\<close>

definition example_rows :: row_iterator where
  "example_rows =
     \<lparr>ri_len = Inl (PyExc TypeError ''object of type 'RowIterator' has no len()''),
      ri_rows = [[(''id'', PInt 1), (''name'', PStr ''a'')],
                 [(''id'', PInt 2), (''name'', PStr ''b'')]]\<rparr>"

definition example_sdk :: sdk where
  "example_sdk =
     \<lparr>WRITE_APPEND = PStr ''WRITE_APPEND'',
      WRITE_TRUNCATE = PStr ''WRITE_TRUNCATE'',
      NEWLINE_DELIMITED_JSON = PStr ''NEWLINE_DELIMITED_JSON'',
      bigquery_LoadJobConfig = (\<lambda>kw. Inr (PObject ''LoadJobConfig'' kw)),
      bigquery_QueryJobConfig = (\<lambda>kw. Inr (PObject ''QueryJobConfig'' kw)),
      client_get_table =
        (\<lambda>ref. if ref = ''proj.ds.events''
               then Inr (Table ref (PList [PStr ''id'', PStr ''name'']))
               else Inl (PyExc (OtherException ''NotFound'') (''Not found: Table '' @ ref))),
      client_schema_from_json =
        (\<lambda>path. if path = ''schema.json''
                then Inr (PList [PStr ''id'', PStr ''name''])
                else Inl (PyExc (OtherException ''FileNotFoundError'') path)),
      client_load_table_from_uri = (\<lambda>kw. Inr \<lparr>job_result = Inr (), job_errors = PNone\<rparr>),
      client_query = (\<lambda>q c. Inr \<lparr>job_result = Inr example_rows, job_errors = PNone\<rparr>)\<rparr>"

definition example_state :: state where
  "example_state =
     \<lparr>heap = (\<lambda>a. if a = 5 then [(''schema'', PList [PStr ''old'']),
                                  (''write_disposition'', PStr ''WRITE_EMPTY''),
                                  (''source_format'', PStr ''CSV''),
                                  (''ignore_unknown_values'', PBool False),
                                  (''autodetect'', PBool True)]
                 else if a = 6 then [(''source_uris'', PStr ''gs://elsewhere/x''),
                                     (''destination'', PStr ''proj.ds.other''),
                                     (''job_config'', PNone)]
                 else []),
      logged = [],
      calls = []\<rparr>"

definition example_config :: pydict where
  "example_config =
     [(''schema'', PList [PStr ''old'']),
      (''write_disposition'', PStr ''WRITE_APPEND''),
      (''source_format'', PStr ''NEWLINE_DELIMITED_JSON''),
      (''ignore_unknown_values'', PBool True),
      (''autodetect'', PBool False)]"

definition example_job_kwargs :: pydict where
  "example_job_kwargs =
     [(''source_uris'', PStr ''gs://bucket/data.json''),
      (''destination'', PTable (Table ''proj.ds.events'' (PList [PStr ''id'', PStr ''name'']))),
      (''job_config'', PObject ''LoadJobConfig'' example_config)]"

text \<open>
  A load into the known table with the caller's two dictionaries; the same load with a
  schema file that cannot be read; a load into a table that does not exist, with the
  default dictionaries and schema detection switched on.
\<close>

abbreviation example_upload :: "(py_exception + unit) \<times> state" where
  "example_upload \<equiv>
     upload_gcs_json example_sdk ''bucket'' ''data.json'' ''proj'' ''ds'' ''events''
       True True False None True (Some 5) (Some 6) example_state"

abbreviation example_failed_schema :: "(py_exception + unit) \<times> state" where
  "example_failed_schema \<equiv>
     upload_gcs_json example_sdk ''bucket'' ''data.json'' ''proj'' ''ds'' ''events''
       True True False (Some ''missing.json'') True (Some 5) (Some 6) example_state"

abbreviation example_missing_table :: "(py_exception + unit) \<times> state" where
  "example_missing_table \<equiv>
     upload_gcs_json example_sdk ''bucket'' ''data.json'' ''proj'' ''ds'' ''nope''
       True True True (Some ''schema.json'') True None None example_state"

text \<open>Two jobs that fail: one with a bad request, one with a refusal.\<close>

definition example_bad_job :: "unit job" where
  "example_bad_job =
     \<lparr>job_result = Inl (PyExc BadRequest ''400 Error while reading data''),
      job_errors = PList [PDict [(''reason'', PStr ''invalid''),
                                 (''message'', PStr ''Error while reading data'')]]\<rparr>"

definition example_denied_job :: "unit job" where
  "example_denied_job =
     \<lparr>job_result = Inl (PyExc (OtherException ''Forbidden'') ''403 Access Denied''),
      job_errors = PList [PDict [(''reason'', PStr ''accessDenied'')]]\<rparr>"

text \<open>
  A statement sent without waiting and a query whose rows are awaited, both with the
  default dictionary.
\<close>

abbreviation example_batch_query :: "(py_exception + pydict list option) \<times> state" where
  "example_batch_query \<equiv> query example_sdk ''DELETE FROM t WHERE id = 0'' None False example_state"

abbreviation example_rows_query :: "(py_exception + pydict list option) \<times> state" where
  "example_rows_query \<equiv> query example_sdk ''SELECT id, name FROM t'' None True example_state"

text \<open>
  Two loads in a row with the default dictionaries, the first with a schema file, the
  second without; and a query that waits, sent after the statement that did not.
\<close>

abbreviation example_first_upload :: "(py_exception + unit) \<times> state" where
  "example_first_upload \<equiv>
     upload_gcs_json example_sdk ''bucket'' ''data.json'' ''proj'' ''ds'' ''events''
       True True False (Some ''schema.json'') True None None example_state"

abbreviation example_second_upload :: "(py_exception + unit) \<times> state" where
  "example_second_upload \<equiv>
     upload_gcs_json example_sdk ''bucket'' ''more.json'' ''proj'' ''ds'' ''events''
       True True False None True None None (snd example_first_upload)"

abbreviation example_second_query :: "(py_exception + pydict list option) \<times> state" where
  "example_second_query \<equiv>
     query example_sdk ''SELECT id, name FROM t'' None True (snd example_batch_query)"

definition example_second_config :: pydict where
  "example_second_config =
     [(''schema'', PList [PStr ''id'', PStr ''name'']),
      (''write_disposition'', PStr ''WRITE_APPEND''),
      (''source_format'', PStr ''NEWLINE_DELIMITED_JSON''),
      (''ignore_unknown_values'', PBool True),
      (''autodetect'', PBool False)]"

section \<open>How the steps change the state\<close>

lemma heap_log_msg [simp]: "heap (log_msg l m st) = heap st"
  and calls_log_msg [simp]: "calls (log_msg l m st) = calls st"
  and logged_log_msg [simp]: "logged (log_msg l m st) = logged st @ [(l, m)]"
  by (simp_all add: log_msg_def)

lemma heap_sdk_called [simp]: "heap (sdk_called c st) = heap st"
  and calls_sdk_called [simp]: "calls (sdk_called c st) = calls st @ [c]"
  and logged_sdk_called [simp]: "logged (sdk_called c st) = logged st"
  by (simp_all add: sdk_called_def)

lemma heap_dict_setitem [simp]:
  "heap (dict_setitem a k v st) = (heap st)(a := AList.update k v (heap st a))"
  and calls_dict_setitem [simp]: "calls (dict_setitem a k v st) = calls st"
  and logged_dict_setitem [simp]: "logged (dict_setitem a k v st) = logged st"
  by (simp_all add: dict_setitem_def)

lemma dict_contains_update [simp]:
  "dict_contains k (AList.update k' v d) \<longleftrightarrow> k = k' \<or> dict_contains k d"
  by (auto simp: dict_contains_def dom_update)

lemma map_of_update [simp]:
  "map_of (AList.update k v d) k' = (if k' = k then Some v else map_of d k')"
  by (simp add: update_conv')

lemma new_calls_append [simp]: "calls st' = calls st @ cs \<Longrightarrow> new_calls st st' = cs"
  by (simp add: new_calls_def)

lemma config_wd:
  "map_of (heap (upload_gcs_json_config sdk af iu ad sp cp st) cp) ''write_disposition''
     = Some (if af then WRITE_APPEND sdk else WRITE_TRUNCATE sdk)"
  by (simp add: upload_gcs_json_config_def Let_def)

lemma config_calls:
  "calls (upload_gcs_json_config sdk af iu ad sp cp st)
     = calls st @ (case sp of None \<Rightarrow> [] | Some p \<Rightarrow> if p = [] then [] else [SchemaFromJson p])"
  by (simp add: upload_gcs_json_config_def Let_def split: option.splits sum.splits)

lemma config_heap_other:
  "a \<noteq> cp \<Longrightarrow> heap (upload_gcs_json_config sdk af iu ad sp cp st) a = heap st a"
  by (simp add: upload_gcs_json_config_def Let_def split: option.splits sum.splits)

lemma monitor_job_heap [simp]: "heap (snd (monitor_job job st)) = heap st"
  by (simp add: monitor_job_def Let_def split: sum.splits)

lemma monitor_job_calls [simp]: "calls (snd (monitor_job job st)) = calls st @ [JobResult]"
  by (simp add: monitor_job_def Let_def split: sum.splits)

lemma submit_load_job_heap [simp]: "heap (snd (submit_load_job sdk aw kw st)) = heap st"
  by (cases "client_load_table_from_uri sdk kw")
     (simp_all add: submit_load_job_def Let_def split_beta split: sum.splits)

lemma submit_load_job_calls:
  "calls (snd (submit_load_job sdk aw kw st)) =
     calls st @ LoadTableFromUri kw #
       (case client_load_table_from_uri sdk kw of Inl e \<Rightarrow> [] | Inr job \<Rightarrow> if aw then [JobResult] else [])"
  by (cases "client_load_table_from_uri sdk kw")
     (simp_all add: submit_load_job_def Let_def split_beta split: sum.splits)

lemma job_params_heap_frame:
  "k \<noteq> ''source_uris'' \<Longrightarrow> k \<noteq> ''destination'' \<Longrightarrow> k \<noteq> ''job_config'' \<Longrightarrow>
   map_of (heap (snd (upload_gcs_json_job_params sdk uri ref cp jp st)) a) k = map_of (heap st a) k"
  by (simp add: upload_gcs_json_job_params_def Let_def build_load_job_config_def split: sum.splits)

lemma job_params_calls:
  "calls (snd (upload_gcs_json_job_params sdk uri ref cp jp st)) =
     calls st @ GetTable ref #
       (case client_get_table sdk ref of
          Inl e \<Rightarrow> []
        | Inr t \<Rightarrow>
            let d = heap (dict_setitem jp ''destination'' (PTable t)
                      (dict_setitem jp ''source_uris'' (PStr uri) st)) cp
            in if dict_contains ''self'' d then [] else [NewLoadJobConfig d])"
  by (simp add: upload_gcs_json_job_params_def Let_def build_load_job_config_def split: sum.splits)

lemma job_params_ok:
  assumes "upload_gcs_json_job_params sdk uri ref cp jp st = (Inr u, st6)"
  shows "\<exists>t cfg. client_get_table sdk ref = Inr t
           \<and> bigquery_LoadJobConfig sdk (heap (dict_setitem jp ''destination'' (PTable t)
                      (dict_setitem jp ''source_uris'' (PStr uri) st)) cp) = Inr cfg
           \<and> map_of (heap st6 jp) ''source_uris'' = Some (PStr uri)
           \<and> map_of (heap st6 jp) ''destination'' = Some (PTable t)
           \<and> map_of (heap st6 jp) ''job_config'' = Some cfg"
  using assms
  by (auto simp add: upload_gcs_json_job_params_def Let_def build_load_job_config_def split: sum.splits if_splits)

lemma upload_heap_frame:
  "k \<noteq> ''source_uris'' \<Longrightarrow> k \<noteq> ''destination'' \<Longrightarrow> k \<noteq> ''job_config'' \<Longrightarrow>
   map_of (heap (snd (upload_gcs_json sdk b bl p d t af iu ad sp aw cpa jpa st)) a) k
   = map_of (heap (upload_gcs_json_config sdk af iu ad sp
        (arg_or_default cpa upload_gcs_json_default_config_params) st) a) k"
proof -
  assume k: "k \<noteq> ''source_uris''" "k \<noteq> ''destination''" "k \<noteq> ''job_config''"
  define cp where "cp = arg_or_default cpa upload_gcs_json_default_config_params"
  define jp where "jp = arg_or_default jpa upload_gcs_json_default_job_params"
  define st1 where "st1 = upload_gcs_json_config sdk af iu ad sp cp st"
  obtain r6 st6 where p2:
    "upload_gcs_json_job_params sdk (''gs://'' @ b @ ''/'' @ bl) (p @ ''.'' @ d @ ''.'' @ t) cp jp st1 = (r6, st6)"
    by fastforce
  have h6: "map_of (heap st6 a) k = map_of (heap st1 a) k"
    using job_params_heap_frame [OF k, of sdk "''gs://'' @ b @ ''/'' @ bl" "p @ ''.'' @ d @ ''.'' @ t" cp jp st1 a] p2
    by simp
  have "heap (snd (upload_gcs_json sdk b bl p d t af iu ad sp aw cpa jpa st)) = heap st6"
    using p2 unfolding upload_gcs_json_def Let_def cp_def [symmetric] jp_def [symmetric] st1_def [symmetric]
    by (cases r6) simp_all
  then show ?thesis using h6 by (simp add: st1_def cp_def)
qed

lemma upload_calls_tail:
  fixes sdk b bl p d t af iu ad sp aw cpa jpa st
  defines "cp \<equiv> arg_or_default cpa upload_gcs_json_default_config_params"
    and "jp \<equiv> arg_or_default jpa upload_gcs_json_default_job_params"
  defines "ph \<equiv> upload_gcs_json_job_params sdk (''gs://'' @ b @ ''/'' @ bl) (p @ ''.'' @ d @ ''.'' @ t)
                   cp jp (upload_gcs_json_config sdk af iu ad sp cp st)"
  shows "\<exists>cs. calls (snd (upload_gcs_json sdk b bl p d t af iu ad sp aw cpa jpa st)) = calls (snd ph) @ cs
           \<and> (cs = [] \<or> (\<exists>u rest. fst ph = Inr u \<and> cs = LoadTableFromUri (heap (snd ph) jp) # rest
                  \<and> set rest \<subseteq> {JobResult}))"
proof -
  obtain r6 st6 where p2: "ph = (r6, st6)" by fastforce
  show ?thesis
    using p2 unfolding upload_gcs_json_def Let_def cp_def [symmetric] jp_def [symmetric] ph_def [symmetric]
    by (cases r6) (auto simp: submit_load_job_calls split: sum.splits)
qed

lemma upload_new_calls:
  fixes sdk b bl p d t af iu ad sp aw cpa jpa st
  defines "cp \<equiv> arg_or_default cpa upload_gcs_json_default_config_params"
    and "jp \<equiv> arg_or_default jpa upload_gcs_json_default_job_params"
    and "uri \<equiv> ''gs://'' @ b @ ''/'' @ bl"
    and "ref \<equiv> p @ ''.'' @ d @ ''.'' @ t"
  defines "st1 \<equiv> upload_gcs_json_config sdk af iu ad sp cp st"
  defines "ph \<equiv> upload_gcs_json_job_params sdk uri ref cp jp st1"
  shows "\<exists>cs. new_calls st (snd (upload_gcs_json sdk b bl p d t af iu ad sp aw cpa jpa st)) =
           (case sp of None \<Rightarrow> [] | Some path \<Rightarrow> if path = [] then [] else [SchemaFromJson path])
           @ GetTable ref #
             (case client_get_table sdk ref of
                Inl e \<Rightarrow> []
              | Inr tb \<Rightarrow>
                  let c = heap (dict_setitem jp ''destination'' (PTable tb)
                            (dict_setitem jp ''source_uris'' (PStr uri) st1)) cp
                  in if dict_contains ''self'' c then [] else [NewLoadJobConfig c])
           @ cs
           \<and> (cs = [] \<or> (\<exists>u rest. fst ph = Inr u \<and> cs = LoadTableFromUri (heap (snd ph) jp) # rest
                  \<and> set rest \<subseteq> {JobResult}))"
proof -
  obtain cs where cs:
    "calls (snd (upload_gcs_json sdk b bl p d t af iu ad sp aw cpa jpa st)) = calls (snd ph) @ cs"
    "cs = [] \<or> (\<exists>u rest. fst ph = Inr u \<and> cs = LoadTableFromUri (heap (snd ph) jp) # rest
                  \<and> set rest \<subseteq> {JobResult})"
    using upload_calls_tail [of sdk b bl p d t af iu ad sp aw cpa jpa st]
    unfolding cp_def jp_def uri_def ref_def st1_def ph_def by blast
  have "calls (snd ph) = calls st1 @ GetTable ref #
       (case client_get_table sdk ref of
          Inl e \<Rightarrow> []
        | Inr tb \<Rightarrow>
            let c = heap (dict_setitem jp ''destination'' (PTable tb)
                      (dict_setitem jp ''source_uris'' (PStr uri) st1)) cp
            in if dict_contains ''self'' c then [] else [NewLoadJobConfig c])"
    unfolding ph_def by (rule job_params_calls)
  moreover have "calls st1 = calls st @
      (case sp of None \<Rightarrow> [] | Some path \<Rightarrow> if path = [] then [] else [SchemaFromJson path])"
    unfolding st1_def by (rule config_calls)
  ultimately show ?thesis using cs by (intro exI [of _ cs]) (simp add: new_calls_def)
qed

lemma config_sf:
  "map_of (heap (upload_gcs_json_config sdk af iu ad sp cp st) cp) ''source_format''
     = Some (NEWLINE_DELIMITED_JSON sdk)"
  and config_iu:
  "map_of (heap (upload_gcs_json_config sdk af iu ad sp cp st) cp) ''ignore_unknown_values''
     = Some (PBool iu)"
  and config_ad:
  "map_of (heap (upload_gcs_json_config sdk af iu ad sp cp st) cp) ''autodetect''
     = Some (PBool ad)"
  by (simp_all add: upload_gcs_json_config_def Let_def)

lemma upload_config_kwargs:
  assumes "NewLoadJobConfig kw \<in> set (new_calls st
             (snd (upload_gcs_json sdk b bl p d t af iu ad sp aw cpa jpa st)))"
  shows "\<exists>tb. client_get_table sdk (p @ ''.'' @ d @ ''.'' @ t) = Inr tb
           \<and> kw = heap (dict_setitem (arg_or_default jpa upload_gcs_json_default_job_params)
                     ''destination'' (PTable tb)
                   (dict_setitem (arg_or_default jpa upload_gcs_json_default_job_params)
                     ''source_uris'' (PStr (''gs://'' @ b @ ''/'' @ bl))
                   (upload_gcs_json_config sdk af iu ad sp
                     (arg_or_default cpa upload_gcs_json_default_config_params) st)))
                 (arg_or_default cpa upload_gcs_json_default_config_params)"
  using assms upload_new_calls [of st sdk b bl p d t af iu ad sp aw cpa jpa]
  by (auto simp: Let_def split: option.splits sum.splits if_splits)

lemma upload_load_kwargs:
  assumes "LoadTableFromUri kw \<in> set (new_calls st
             (snd (upload_gcs_json sdk b bl p d t af iu ad sp aw cpa jpa st)))"
  shows "\<exists>u st6. upload_gcs_json_job_params sdk (''gs://'' @ b @ ''/'' @ bl) (p @ ''.'' @ d @ ''.'' @ t)
               (arg_or_default cpa upload_gcs_json_default_config_params)
               (arg_or_default jpa upload_gcs_json_default_job_params)
               (upload_gcs_json_config sdk af iu ad sp
                  (arg_or_default cpa upload_gcs_json_default_config_params) st) = (Inr u, st6)
           \<and> kw = heap st6 (arg_or_default jpa upload_gcs_json_default_job_params)"
  using assms upload_new_calls [of st sdk b bl p d t af iu ad sp aw cpa jpa]
  by (auto simp: Let_def prod_eq_iff split: option.splits sum.splits if_splits)


lemma job_params_lookup_fails:
  "client_get_table sdk ref = Inl e \<Longrightarrow>
   fst (upload_gcs_json_job_params sdk uri ref cp jp st) = Inl e"
  by (simp add: upload_gcs_json_job_params_def Let_def)

lemma upload_lookup_fails:
  assumes "client_get_table sdk (p @ ''.'' @ d @ ''.'' @ t) = Inl e"
  shows "fst (upload_gcs_json sdk b bl p d t af iu ad sp aw cpa jpa st) = Inl e"
proof -
  obtain r6 st6 where ph:
    "upload_gcs_json_job_params sdk (''gs://'' @ b @ ''/'' @ bl) (p @ ''.'' @ d @ ''.'' @ t)
               (arg_or_default cpa upload_gcs_json_default_config_params)
               (arg_or_default jpa upload_gcs_json_default_job_params)
               (upload_gcs_json_config sdk af iu ad sp
                  (arg_or_default cpa upload_gcs_json_default_config_params) st) = (r6, st6)"
    by fastforce
  with job_params_lookup_fails [OF assms, of "''gs://'' @ b @ ''/'' @ bl"
      "arg_or_default cpa upload_gcs_json_default_config_params"
      "arg_or_default jpa upload_gcs_json_default_job_params"
      "upload_gcs_json_config sdk af iu ad sp
                  (arg_or_default cpa upload_gcs_json_default_config_params) st"]
  have "r6 = Inl e" by simp
  with ph show ?thesis by (simp add: upload_gcs_json_def Let_def)
qed


lemma query_build_config_heap:
  "heap (snd (query_build_config sdk qc aw st)) =
     (if \<not> aw \<and> \<not> dict_contains ''priority'' (heap st qc)
      then (heap st)(qc := AList.update ''priority'' (PStr ''BATCH'') (heap st qc))
      else heap st)"
  by (simp add: query_build_config_def Let_def)

lemma query_build_config_calls:
  "calls (snd (query_build_config sdk qc aw st)) =
     calls st @ (let d = heap (snd (query_build_config sdk qc aw st)) qc
                 in if d = [] then [] else [NewQueryJobConfig d])"
  unfolding query_build_config_heap
  by (auto simp add: query_build_config_def Let_def dict_contains_def)

lemma query_build_config_fst:
  "fst (query_build_config sdk qc aw st) =
     (let d = heap (snd (query_build_config sdk qc aw st)) qc
      in if d = [] then Inr PNone else bigquery_QueryJobConfig sdk d)"
  unfolding query_build_config_heap
  by (auto simp add: query_build_config_def Let_def dict_contains_def)

lemma query_results_heap [simp]: "heap (snd (query_results job st)) = heap st"
  by (simp add: query_results_def Let_def split: sum.splits)

lemma query_results_calls [simp]: "calls (snd (query_results job st)) = calls st @ [JobResult]"
  by (simp add: query_results_def Let_def split: sum.splits)

lemma query_results_fst:
  "fst (query_results job st) =
     (case job_result job of
        Inl e \<Rightarrow> Inl e
      | Inr rs \<Rightarrow> (case ri_len rs of
                     Inl e \<Rightarrow> Inl e
                   | Inr n \<Rightarrow> Inr (Some (map dict_of_items (ri_rows rs)))))"
  by (simp add: query_results_def Let_def split: sum.splits)

lemma query_heap:
  "heap (snd (query sdk q qca aw st)) =
     (if \<not> aw \<and> \<not> dict_contains ''priority'' (heap st (arg_or_default qca query_default_query_config))
      then (heap st)(arg_or_default qca query_default_query_config :=
             AList.update ''priority'' (PStr ''BATCH'')
               (heap st (arg_or_default qca query_default_query_config)))
      else heap st)"
proof -
  obtain r2 st2 where b:
    "query_build_config sdk (arg_or_default qca query_default_query_config) aw st = (r2, st2)"
    by fastforce
  have "heap (snd (query sdk q qca aw st)) = heap st2"
    using b by (cases r2) (simp_all add: query_def Let_def split: sum.splits)
  with query_build_config_heap [of sdk "arg_or_default qca query_default_query_config" aw st] b
  show ?thesis by simp
qed

lemma query_calls:
  "new_calls st (snd (query sdk q qca aw st)) =
     (let d = heap (snd (query sdk q qca aw st)) (arg_or_default qca query_default_query_config)
      in (if d = [] then [] else [NewQueryJobConfig d])
         @ (case (if d = [] then Inr PNone else bigquery_QueryJobConfig sdk d) of
              Inl e \<Rightarrow> []
            | Inr c \<Rightarrow> Query q c #
                (case client_query sdk q c of
                   Inl e \<Rightarrow> []
                 | Inr job \<Rightarrow> if aw then [JobResult] else [])))"
proof -
  obtain r2 st2 where b:
    "query_build_config sdk (arg_or_default qca query_default_query_config) aw st = (r2, st2)"
    by fastforce
  have h: "heap (snd (query sdk q qca aw st)) = heap st2"
    using b by (cases r2) (simp_all add: query_def Let_def split: sum.splits)
  have c2: "calls st2 = calls st @ (let d = heap st2 (arg_or_default qca query_default_query_config)
                 in if d = [] then [] else [NewQueryJobConfig d])"
    and r2: "r2 = (let d = heap st2 (arg_or_default qca query_default_query_config)
      in if d = [] then Inr PNone else bigquery_QueryJobConfig sdk d)"
    using query_build_config_calls [of sdk "arg_or_default qca query_default_query_config" aw st]
      query_build_config_fst [of sdk "arg_or_default qca query_default_query_config" aw st] b
    by simp_all
  have "calls (snd (query sdk q qca aw st)) = calls st2 @
      (case r2 of Inl e \<Rightarrow> [] | Inr c \<Rightarrow> Query q c #
                (case client_query sdk q c of
                   Inl e \<Rightarrow> []
                 | Inr job \<Rightarrow> if aw then [JobResult] else []))"
    using b by (cases r2) (simp_all add: query_def Let_def split: sum.splits)
  then show ?thesis
    unfolding h using c2 r2 by (simp add: new_calls_def Let_def)
qed

lemma query_fst:
  "fst (query sdk q qca aw st) =
     (let d = heap (snd (query sdk q qca aw st)) (arg_or_default qca query_default_query_config)
      in case (if d = [] then Inr PNone else bigquery_QueryJobConfig sdk d) of
           Inl e \<Rightarrow> Inl e
         | Inr c \<Rightarrow>
             (case client_query sdk q c of
                Inl e \<Rightarrow> Inl e
              | Inr job \<Rightarrow>
                  if \<not> aw then Inr None
                  else (case job_result job of
                          Inl e \<Rightarrow> Inl e
                        | Inr rs \<Rightarrow>
                            (case ri_len rs of
                               Inl e \<Rightarrow> Inl e
                             | Inr n \<Rightarrow> Inr (Some (map dict_of_items (ri_rows rs)))))))"
proof -
  obtain r2 st2 where b:
    "query_build_config sdk (arg_or_default qca query_default_query_config) aw st = (r2, st2)"
    by fastforce
  have h: "heap (snd (query sdk q qca aw st)) = heap st2"
    using b by (cases r2) (simp_all add: query_def Let_def split: sum.splits)
  have r2: "r2 = (let d = heap st2 (arg_or_default qca query_default_query_config)
      in if d = [] then Inr PNone else bigquery_QueryJobConfig sdk d)"
    using query_build_config_fst [of sdk "arg_or_default qca query_default_query_config" aw st] b
    by simp
  have "fst (query sdk q qca aw st) =
      (case r2 of Inl e \<Rightarrow> Inl e | Inr c \<Rightarrow>
             (case client_query sdk q c of
                Inl e \<Rightarrow> Inl e
              | Inr job \<Rightarrow>
                  if \<not> aw then Inr None
                  else (case job_result job of
                          Inl e \<Rightarrow> Inl e
                        | Inr rs \<Rightarrow>
                            (case ri_len rs of
                               Inl e \<Rightarrow> Inl e
                             | Inr n \<Rightarrow> Inr (Some (map dict_of_items (ri_rows rs)))))))"
    using b by (cases r2) (simp_all add: query_def Let_def query_results_fst split: sum.splits)
  then show ?thesis
    unfolding h using r2 by (simp add: Let_def)
qed

lemma foldl_update_keys:
  "fst ` set (foldl (\<lambda>d (k, v). AList.update k v d) acc items) = fst ` set acc \<union> fst ` set items"
proof (induction items arbitrary: acc)
  case Nil
  then show ?case by simp
next
  case (Cons x xs)
  obtain k v where x: "x = (k, v)" by (cases x)
  have "fst ` set (AList.update k v acc) = insert k (fst ` set acc)"
    by (simp add: dom_update)
  with Cons.IH [of "AList.update k v acc"] show ?case by (auto simp: x)
qed

lemma dict_of_items_keys: "fst ` set (dict_of_items items) = fst ` set items"
  by (simp add: dict_of_items_def foldl_update_keys)

lemma update_fresh: "k \<notin> fst ` set d \<Longrightarrow> AList.update k v d = d @ [(k, v)]"
  by (induction d) auto

lemma foldl_update_distinct:
  "distinct (map fst items) \<Longrightarrow> fst ` set acc \<inter> fst ` set items = {} \<Longrightarrow>
   foldl (\<lambda>d (k, v). AList.update k v d) acc items = acc @ items"
proof (induction items arbitrary: acc)
  case Nil
  then show ?case by simp
next
  case (Cons x xs)
  obtain k v where x: "x = (k, v)" by (cases x)
  from Cons.prems have fresh: "k \<notin> fst ` set acc" by (auto simp: x)
  have "foldl (\<lambda>d (k, v). AList.update k v d) (acc @ [(k, v)]) xs = (acc @ [(k, v)]) @ xs"
    using Cons.prems by (intro Cons.IH) (auto simp: x)
  then show ?case by (simp add: x update_fresh [OF fresh])
qed

lemma dict_of_items_distinct: "distinct (map fst items) \<Longrightarrow> dict_of_items items = items"
  using foldl_update_distinct [of items "[]"] by (simp add: dict_of_items_def)

lemma dict_contains_nonempty: "dict_contains k d \<Longrightarrow> d \<noteq> []"
  by (auto simp: dict_contains_def)

lemma update_nonempty: "AList.update k v d \<noteq> []"
  by (cases d) auto

lemma query_no_wait_nonempty:
  "heap (snd (query sdk q qca False st)) (arg_or_default qca query_default_query_config) \<noteq> []"
  by (auto simp: query_heap update_nonempty dest: dict_contains_nonempty)

lemma with_history_fresh: "with_history (logged st) (calls st) (fresh st) = st"
  by (simp add: with_history_def fresh_def)

lemma heap_with_history [simp]: "heap (with_history l c st) = heap st"
  and logged_with_history [simp]: "logged (with_history l c st) = l @ logged st"
  and calls_with_history [simp]: "calls (with_history l c st) = c @ calls st"
  by (simp_all add: with_history_def)

lemma heap_fresh [simp]: "heap (fresh st) = heap st"
  and logged_fresh [simp]: "logged (fresh st) = []"
  and calls_fresh [simp]: "calls (fresh st) = []"
  by (simp_all add: fresh_def)

lemma with_history_twice:
  "with_history l c (with_history l' c' st) = with_history (l @ l') (c @ c') st"
  by (simp add: with_history_def)

lemma log_msg_with_history:
  "log_msg lv m (with_history l c st) = with_history l c (log_msg lv m st)"
  by (simp add: with_history_def log_msg_def)

lemma sdk_called_with_history:
  "sdk_called x (with_history l c st) = with_history l c (sdk_called x st)"
  by (simp add: with_history_def sdk_called_def)

lemma dict_setitem_with_history:
  "dict_setitem a k v (with_history l c st) = with_history l c (dict_setitem a k v st)"
  by (simp add: with_history_def dict_setitem_def)

lemmas with_history_commute =
  log_msg_with_history sdk_called_with_history dict_setitem_with_history

lemma config_with_history:
  "upload_gcs_json_config sdk af iu ad sp cp (with_history l c st)
     = with_history l c (upload_gcs_json_config sdk af iu ad sp cp st)"
  by (simp add: upload_gcs_json_config_def Let_def with_history_commute
           split: option.splits sum.splits)

lemma monitor_job_with_history:
  "monitor_job job (with_history l c st) = apsnd (with_history l c) (monitor_job job st)"
  by (simp add: monitor_job_def Let_def with_history_commute split: sum.splits)

lemma submit_load_job_with_history:
  "submit_load_job sdk aw kw (with_history l c st)
     = apsnd (with_history l c) (submit_load_job sdk aw kw st)"
proof (cases "client_load_table_from_uri sdk kw")
  case (Inl e)
  then show ?thesis
    by (simp add: submit_load_job_def Let_def with_history_commute)
next
  case (Inr job)
  obtain r st2 where m: "monitor_job job (sdk_called (LoadTableFromUri kw) st) = (r, st2)"
    by fastforce
  with Inr show ?thesis
    by (cases r)
       (simp_all add: submit_load_job_def Let_def with_history_commute monitor_job_with_history)
qed

lemma job_params_with_history:
  "upload_gcs_json_job_params sdk uri ref cp jp (with_history l c st)
     = apsnd (with_history l c) (upload_gcs_json_job_params sdk uri ref cp jp st)"
  by (simp add: upload_gcs_json_job_params_def Let_def build_load_job_config_def
        with_history_commute split: sum.splits)

lemma upload_with_history:
  "upload_gcs_json sdk b bl p d t af iu ad sp aw cpa jpa (with_history l c st)
     = apsnd (with_history l c) (upload_gcs_json sdk b bl p d t af iu ad sp aw cpa jpa st)"
proof -
  obtain r6 st6 where ph:
    "upload_gcs_json_job_params sdk (''gs://'' @ b @ ''/'' @ bl) (p @ ''.'' @ d @ ''.'' @ t)
       (arg_or_default cpa upload_gcs_json_default_config_params)
       (arg_or_default jpa upload_gcs_json_default_job_params)
       (upload_gcs_json_config sdk af iu ad sp
          (arg_or_default cpa upload_gcs_json_default_config_params) st) = (r6, st6)"
    by fastforce
  then show ?thesis
    by (cases r6)
       (simp_all add: upload_gcs_json_def Let_def config_with_history job_params_with_history
          with_history_commute submit_load_job_with_history)
qed

lemma config_failed_schema:
  assumes "path \<noteq> []" and "client_schema_from_json sdk path = Inl e"
  shows "upload_gcs_json_config sdk af iu ad (Some path) cp st =
     upload_gcs_json_config sdk af iu ad None cp
       (with_history
          (logged st
           @ (if ad
              then [(WARNING,
                     [Lit (''You currently have \"autodetect_schema\" set to True while ''
                        @ ''also specifying a schema. Consider setting \"autodetect_schema\" ''
                        @ ''to False to avoid type inference conflicts.'')])]
              else [])
           @ [(DEBUG, [Lit ''Trying to build schema...'']),
              (WARNING, [Lit (''Failed to build schema: '' @ class_name (exc_class e)
                              @ '': '' @ exc_str e)])])
          (calls st @ [SchemaFromJson path]) (fresh st))"
  using assms
  by (simp add: upload_gcs_json_config_def Let_def with_history_def fresh_def log_msg_def
        sdk_called_def dict_setitem_def)

lemma config_schema_kept:
  "map_of (heap (upload_gcs_json_config sdk af iu ad None cp st) a) ''schema''
     = map_of (heap st a) ''schema''"
  by (simp add: upload_gcs_json_config_def Let_def)

lemma config_schema_set:
  "path \<noteq> [] \<Longrightarrow> client_schema_from_json sdk path = Inr s \<Longrightarrow>
   map_of (heap (upload_gcs_json_config sdk af iu ad (Some path) cp st) cp) ''schema'' = Some s"
  by (simp add: upload_gcs_json_config_def Let_def)

lemma upload_failed_schema:
  assumes "path \<noteq> []" and "client_schema_from_json sdk path = Inl e"
  shows "upload_gcs_json sdk b bl p d t af iu ad (Some path) aw cpa jpa st =
     apsnd (with_history
          (logged st
           @ (if ad
              then [(WARNING,
                     [Lit (''You currently have \"autodetect_schema\" set to True while ''
                        @ ''also specifying a schema. Consider setting \"autodetect_schema\" ''
                        @ ''to False to avoid type inference conflicts.'')])]
              else [])
           @ [(DEBUG, [Lit ''Trying to build schema...'']),
              (WARNING, [Lit (''Failed to build schema: '' @ class_name (exc_class e)
                              @ '': '' @ exc_str e)])])
          (calls st @ [SchemaFromJson path]))
       (upload_gcs_json sdk b bl p d t af iu ad None aw cpa jpa (fresh st))"
proof -
  have "upload_gcs_json sdk b bl p d t af iu ad (Some path) aw cpa jpa st =
      upload_gcs_json sdk b bl p d t af iu ad None aw cpa jpa
       (with_history
          (logged st
           @ (if ad
              then [(WARNING,
                     [Lit (''You currently have \"autodetect_schema\" set to True while ''
                        @ ''also specifying a schema. Consider setting \"autodetect_schema\" ''
                        @ ''to False to avoid type inference conflicts.'')])]
              else [])
           @ [(DEBUG, [Lit ''Trying to build schema...'']),
              (WARNING, [Lit (''Failed to build schema: '' @ class_name (exc_class e)
                              @ '': '' @ exc_str e)])])
          (calls st @ [SchemaFromJson path]) (fresh st))"
    unfolding upload_gcs_json_def Let_def config_failed_schema [OF assms] ..
  then show ?thesis by (simp only: upload_with_history)
qed

lemma upload_from_fresh:
  "upload_gcs_json sdk b bl p d t af iu ad sp aw cpa jpa st =
     apsnd (with_history (logged st) (calls st))
       (upload_gcs_json sdk b bl p d t af iu ad sp aw cpa jpa (fresh st))"
  using upload_with_history [of sdk b bl p d t af iu ad sp aw cpa jpa "logged st" "calls st" "fresh st"]
  by (simp add: with_history_fresh)

lemma job_params_heap_other:
  "a \<noteq> jp \<Longrightarrow> heap (snd (upload_gcs_json_job_params sdk uri ref cp jp st)) a = heap st a"
  by (simp add: upload_gcs_json_job_params_def Let_def build_load_job_config_def
           split: sum.splits)

lemma job_params_source_uris:
  "map_of (heap (snd (upload_gcs_json_job_params sdk uri ref cp jp st)) jp) ''source_uris''
     = Some (PStr uri)"
  by (simp add: upload_gcs_json_job_params_def Let_def build_load_job_config_def
           split: sum.splits)

lemma upload_heap_is_job_params_heap:
  "heap (snd (upload_gcs_json sdk b bl p d t af iu ad sp aw cpa jpa st)) =
     heap (snd (upload_gcs_json_job_params sdk (''gs://'' @ b @ ''/'' @ bl) (p @ ''.'' @ d @ ''.'' @ t)
       (arg_or_default cpa upload_gcs_json_default_config_params)
       (arg_or_default jpa upload_gcs_json_default_job_params)
       (upload_gcs_json_config sdk af iu ad sp
          (arg_or_default cpa upload_gcs_json_default_config_params) st)))"
proof -
  obtain r6 st6 where ph:
    "upload_gcs_json_job_params sdk (''gs://'' @ b @ ''/'' @ bl) (p @ ''.'' @ d @ ''.'' @ t)
       (arg_or_default cpa upload_gcs_json_default_config_params)
       (arg_or_default jpa upload_gcs_json_default_job_params)
       (upload_gcs_json_config sdk af iu ad sp
          (arg_or_default cpa upload_gcs_json_default_config_params) st) = (r6, st6)"
    by fastforce
  then show ?thesis
    by (cases r6) (simp_all add: upload_gcs_json_def Let_def)
qed

lemma upload_heap_other:
  "a \<noteq> arg_or_default cpa upload_gcs_json_default_config_params \<Longrightarrow>
   a \<noteq> arg_or_default jpa upload_gcs_json_default_job_params \<Longrightarrow>
   heap (snd (upload_gcs_json sdk b bl p d t af iu ad sp aw cpa jpa st)) a = heap st a"
  by (simp add: upload_heap_is_job_params_heap job_params_heap_other config_heap_other)

lemma upload_source_uris:
  "map_of (heap (snd (upload_gcs_json sdk b bl p d t af iu ad sp aw cpa jpa st))
       (arg_or_default jpa upload_gcs_json_default_job_params)) ''source_uris''
     = Some (PStr (''gs://'' @ b @ ''/'' @ bl))"
  by (simp add: upload_heap_is_job_params_heap job_params_source_uris)

lemma config_contains_other:
  "k \<noteq> ''schema'' \<Longrightarrow> k \<noteq> ''write_disposition'' \<Longrightarrow> k \<noteq> ''source_format'' \<Longrightarrow>
   k \<noteq> ''ignore_unknown_values'' \<Longrightarrow> k \<noteq> ''autodetect'' \<Longrightarrow>
   dict_contains k (heap (upload_gcs_json_config sdk af iu ad sp cp st) a)
     = dict_contains k (heap st a)"
  by (simp add: upload_gcs_json_config_def Let_def split: option.splits sum.splits)

lemma job_params_succeeds:
  assumes "client_get_table sdk ref = Inr tb"
    and "\<not> dict_contains ''self'' (heap st cp)"
    and "bigquery_LoadJobConfig sdk
           (heap (dict_setitem jp ''destination'' (PTable tb)
              (dict_setitem jp ''source_uris'' (PStr uri) st)) cp) = Inr cfg"
  shows "\<exists>st6. upload_gcs_json_job_params sdk uri ref cp jp st = (Inr (), st6)
           \<and> heap st6 jp = AList.update ''job_config'' cfg
                (AList.update ''destination'' (PTable tb)
                  (AList.update ''source_uris'' (PStr uri) (heap st jp)))"
proof -
  have "\<not> dict_contains ''self'' (heap (dict_setitem jp ''destination'' (PTable tb)
              (sdk_called (GetTable ref) (dict_setitem jp ''source_uris'' (PStr uri) st))) cp)"
    using assms(2) by auto
  moreover have "heap (dict_setitem jp ''destination'' (PTable tb)
              (sdk_called (GetTable ref) (dict_setitem jp ''source_uris'' (PStr uri) st))) cp
      = heap (dict_setitem jp ''destination'' (PTable tb)
              (dict_setitem jp ''source_uris'' (PStr uri) st)) cp"
    by simp
  ultimately show ?thesis
    using assms(1,3)
    by (simp add: upload_gcs_json_job_params_def Let_def build_load_job_config_def
          del: heap_dict_setitem)
       (simp)
qed

lemma upload_submits:
  assumes "client_get_table sdk (p @ ''.'' @ d @ ''.'' @ t) = Inr tb"
    and "bigquery_LoadJobConfig sdk
           (heap (dict_setitem (arg_or_default jpa upload_gcs_json_default_job_params)
                    ''destination'' (PTable tb)
                 (dict_setitem (arg_or_default jpa upload_gcs_json_default_job_params)
                    ''source_uris'' (PStr (''gs://'' @ b @ ''/'' @ bl))
                 (upload_gcs_json_config sdk af iu ad sp
                    (arg_or_default cpa upload_gcs_json_default_config_params) st)))
              (arg_or_default cpa upload_gcs_json_default_config_params)) = Inr cfg"
    and "\<not> dict_contains ''self''
           (heap st (arg_or_default cpa upload_gcs_json_default_config_params))"
    and "\<not> dict_contains ''self''
           (heap st (arg_or_default jpa upload_gcs_json_default_job_params))"
    and "\<not> dict_contains ''await_result''
           (heap st (arg_or_default jpa upload_gcs_json_default_job_params))"
  shows "\<exists>kw. LoadTableFromUri kw \<in> set (new_calls st
            (snd (upload_gcs_json sdk b bl p d t af iu ad sp aw cpa jpa st)))"
proof -
  define cp where "cp = arg_or_default cpa upload_gcs_json_default_config_params"
  define jp where "jp = arg_or_default jpa upload_gcs_json_default_job_params"
  define st1 where "st1 = upload_gcs_json_config sdk af iu ad sp cp st"
  have self_cp: "\<not> dict_contains ''self'' (heap st1 cp)"
    and self_jp: "\<not> dict_contains ''self'' (heap st1 jp)"
    and await_jp: "\<not> dict_contains ''await_result'' (heap st1 jp)"
    using assms(3-5) by (simp_all add: st1_def cp_def jp_def config_contains_other)
  from job_params_succeeds [OF assms(1) self_cp, of jp "''gs://'' @ b @ ''/'' @ bl" cfg] assms(2)
  obtain st6 where
    ph: "upload_gcs_json_job_params sdk (''gs://'' @ b @ ''/'' @ bl) (p @ ''.'' @ d @ ''.'' @ t)
           cp jp st1 = (Inr (), st6)"
    and h6: "heap st6 jp = AList.update ''job_config'' cfg
                (AList.update ''destination'' (PTable tb)
                  (AList.update ''source_uris'' (PStr (''gs://'' @ b @ ''/'' @ bl)) (heap st1 jp)))"
    unfolding st1_def cp_def jp_def by blast
  have clash: "\<not> dict_contains ''await_result'' (heap st6 jp)" "\<not> dict_contains ''self'' (heap st6 jp)"
    using self_jp await_jp by (simp_all add: h6)
  have run: "upload_gcs_json sdk b bl p d t af iu ad sp aw cpa jpa st =
      submit_load_job sdk aw (heap st6 jp)
        (log_msg DEBUG [Lit ''BigQuery load job params: '', Fmt (PDict (heap st6 jp))]
          (log_msg INFO
             [Lit (''Submitting job to upload ['' @ (''gs://'' @ b @ ''/'' @ bl) @ ''] to [''
                   @ (p @ ''.'' @ d @ ''.'' @ t) @ '']...'')] st6))"
    using ph clash
    unfolding upload_gcs_json_def Let_def cp_def [symmetric] jp_def [symmetric] st1_def [symmetric]
    by simp
  have tail: "calls (snd (upload_gcs_json sdk b bl p d t af iu ad sp aw cpa jpa st)) =
      calls st6 @ LoadTableFromUri (heap st6 jp) #
        (case client_load_table_from_uri sdk (heap st6 jp) of
           Inl e \<Rightarrow> []
         | Inr job \<Rightarrow> if aw then [JobResult] else [])"
    unfolding run by (simp add: submit_load_job_calls)
  have "\<exists>pre. calls st6 = calls st @ pre"
    using job_params_calls [of sdk "''gs://'' @ b @ ''/'' @ bl" "p @ ''.'' @ d @ ''.'' @ t" cp jp st1]
      config_calls [of sdk af iu ad sp cp st] ph
    by (simp add: st1_def)
  then obtain pre where "calls st6 = calls st @ pre"
    by blast
  with tail have "new_calls st (snd (upload_gcs_json sdk b bl p d t af iu ad sp aw cpa jpa st)) =
      pre @ LoadTableFromUri (heap st6 jp) #
        (case client_load_table_from_uri sdk (heap st6 jp) of
           Inl e \<Rightarrow> []
         | Inr job \<Rightarrow> if aw then [JobResult] else [])"
    by (simp add: new_calls_def)
  then have "LoadTableFromUri (heap st6 jp) \<in> set (new_calls st
            (snd (upload_gcs_json sdk b bl p d t af iu ad sp aw cpa jpa st)))"
    by simp
  then show ?thesis
    by blast
qed

section \<open>The runs on the concrete inputs\<close>

lemma example_upload_calls:
  "new_calls example_state (snd example_upload) =
     [GetTable ''proj.ds.events'', NewLoadJobConfig example_config,
      LoadTableFromUri example_job_kwargs, JobResult]"
  by code_simp

lemma example_failed_schema_calls:
  "new_calls example_state (snd example_failed_schema) =
     [SchemaFromJson ''missing.json'', GetTable ''proj.ds.events'',
      NewLoadJobConfig example_config, LoadTableFromUri example_job_kwargs, JobResult]"
  by code_simp

lemma example_lookups:
  "client_get_table example_sdk (''proj'' @ ''.'' @ ''ds'' @ ''.'' @ ''events'')
     = Inr (Table ''proj.ds.events'' (PList [PStr ''id'', PStr ''name'']))"
  "client_get_table example_sdk (''proj'' @ ''.'' @ ''ds'' @ ''.'' @ ''nope'')
     = Inl (PyExc (OtherException ''NotFound'') ''Not found: Table proj.ds.nope'')"
  "client_schema_from_json example_sdk ''missing.json''
     = Inl (PyExc (OtherException ''FileNotFoundError'') ''missing.json'')"
  "client_schema_from_json example_sdk ''schema.json'' = Inr (PList [PStr ''id'', PStr ''name''])"
  by (simp_all add: example_sdk_def)

lemma example_batch_query_calls:
  "new_calls example_state (snd example_batch_query) =
     [NewQueryJobConfig [(''priority'', PStr ''BATCH'')],
      Query ''DELETE FROM t WHERE id = 0'' (PObject ''QueryJobConfig'' [(''priority'', PStr ''BATCH'')])]"
  by code_simp

lemma example_batch_query_heap:
  "heap (snd example_batch_query) (arg_or_default None query_default_query_config)
     = [(''priority'', PStr ''BATCH'')]"
  by code_simp

lemma example_rows_query_heap:
  "heap example_state (arg_or_default None query_default_query_config) = []"
  "heap (snd example_rows_query) (arg_or_default None query_default_query_config) = []"
  by code_simp+

lemma example_rows_query_calls:
  "new_calls example_state (snd example_rows_query) = [Query ''SELECT id, name FROM t'' PNone, JobResult]"
  by code_simp


lemma example_failed_schema_fst: "fst example_failed_schema = Inr ()"
  by code_simp

lemma example_failed_schema_heap: "heap (snd example_failed_schema) 5 = example_config"
  by code_simp

lemma example_second_upload_calls:
  "NewLoadJobConfig example_second_config
     \<in> set (new_calls (snd example_first_upload) (snd example_second_upload))"
  by code_simp

lemma example_second_query_calls:
  "new_calls (snd example_batch_query) (snd example_second_query) =
     [NewQueryJobConfig [(''priority'', PStr ''BATCH'')],
      Query ''SELECT id, name FROM t'' (PObject ''QueryJobConfig'' [(''priority'', PStr ''BATCH'')]),
      JobResult]"
  by code_simp

section \<open>The claims\<close>

text \<open>
  In the statements below, \<open>arg_or_default cpa upload_gcs_json_default_config_params\<close>
  is the dictionary the call uses as \<open>config_params\<close>, and \<open>new_calls st st'\<close> are the
  calls made to the SDK during the call that leads from \<open>st\<close> to \<open>st'\<close>; the
  keyword arguments of \<open>bigquery.LoadJobConfig\<close> are the assembled configuration.
\<close>

text \<open>
  Claim C1. Whatever the caller's \<open>config_params\<close> held, once \<open>upload_gcs_json\<close> is
  through, the key \<open>write_disposition\<close> of that dictionary is the append disposition
  if \<open>append\<close> is true and the truncate disposition if not, and so it is in the
  configuration from which the job configuration is built.
\<close>

theorem upload_gcs_json_write_disposition:
  "map_of (heap (snd (upload_gcs_json sdk b bl p d t af iu ad sp aw cpa jpa st))
        (arg_or_default cpa upload_gcs_json_default_config_params)) ''write_disposition''
     = Some (if af then WRITE_APPEND sdk else WRITE_TRUNCATE sdk)
   \<and> (\<forall>kw. NewLoadJobConfig kw \<in> set (new_calls st
               (snd (upload_gcs_json sdk b bl p d t af iu ad sp aw cpa jpa st)))
          \<longrightarrow> map_of kw ''write_disposition''
                = Some (if af then WRITE_APPEND sdk else WRITE_TRUNCATE sdk))"
proof (intro conjI allI impI)
  show "map_of (heap (snd (upload_gcs_json sdk b bl p d t af iu ad sp aw cpa jpa st))
        (arg_or_default cpa upload_gcs_json_default_config_params)) ''write_disposition''
     = Some (if af then WRITE_APPEND sdk else WRITE_TRUNCATE sdk)"
    by (simp add: upload_heap_frame config_wd)
next
  fix kw
  assume "NewLoadJobConfig kw \<in> set (new_calls st
               (snd (upload_gcs_json sdk b bl p d t af iu ad sp aw cpa jpa st)))"
  from upload_config_kwargs [OF this] config_wd [of sdk af iu ad sp _ st]
  show "map_of kw ''write_disposition'' = Some (if af then WRITE_APPEND sdk else WRITE_TRUNCATE sdk)"
    by auto
qed

theorem upload_gcs_json_write_disposition_witness:
  "NewLoadJobConfig example_config \<in> set (new_calls example_state (snd example_upload))
   \<and> map_of (heap example_state 5) ''write_disposition'' = Some (PStr ''WRITE_EMPTY'')
   \<and> map_of example_config ''write_disposition'' = Some (WRITE_APPEND example_sdk)"
proof -
  have mem: "NewLoadJobConfig example_config \<in> set (new_calls example_state (snd example_upload))"
    by (simp add: example_upload_calls)
  from upload_gcs_json_write_disposition [of example_sdk "''bucket''" "''data.json''"
      "''proj''" "''ds''" "''events''" True True False None True "Some 5" "Some 6" example_state] mem
  have "map_of example_config ''write_disposition'' = Some (WRITE_APPEND example_sdk)"
    by simp
  with mem show ?thesis by (simp add: example_state_def)
qed

text \<open>
  Claim C2. Whatever the caller's \<open>config_params\<close> held, once \<open>upload_gcs_json\<close> is
  through, its key \<open>source_format\<close> is newline-delimited JSON, its key
  \<open>ignore_unknown_values\<close> is the argument \<open>ignore_unknown\<close> and its key \<open>autodetect\<close>
  is the argument \<open>autodetect_schema\<close>, and so they are in the configuration from which
  the job configuration is built.
\<close>

theorem upload_gcs_json_explicit_arguments:
  "map_of (heap (snd (upload_gcs_json sdk b bl p d t af iu ad sp aw cpa jpa st))
        (arg_or_default cpa upload_gcs_json_default_config_params)) ''source_format''
     = Some (NEWLINE_DELIMITED_JSON sdk)
   \<and> map_of (heap (snd (upload_gcs_json sdk b bl p d t af iu ad sp aw cpa jpa st))
        (arg_or_default cpa upload_gcs_json_default_config_params)) ''ignore_unknown_values''
     = Some (PBool iu)
   \<and> map_of (heap (snd (upload_gcs_json sdk b bl p d t af iu ad sp aw cpa jpa st))
        (arg_or_default cpa upload_gcs_json_default_config_params)) ''autodetect''
     = Some (PBool ad)
   \<and> (\<forall>kw. NewLoadJobConfig kw \<in> set (new_calls st
               (snd (upload_gcs_json sdk b bl p d t af iu ad sp aw cpa jpa st)))
          \<longrightarrow> map_of kw ''source_format'' = Some (NEWLINE_DELIMITED_JSON sdk)
              \<and> map_of kw ''ignore_unknown_values'' = Some (PBool iu)
              \<and> map_of kw ''autodetect'' = Some (PBool ad))"
proof -
  have final: "map_of (heap (snd (upload_gcs_json sdk b bl p d t af iu ad sp aw cpa jpa st))
        (arg_or_default cpa upload_gcs_json_default_config_params)) ''source_format''
     = Some (NEWLINE_DELIMITED_JSON sdk)"
    "map_of (heap (snd (upload_gcs_json sdk b bl p d t af iu ad sp aw cpa jpa st))
        (arg_or_default cpa upload_gcs_json_default_config_params)) ''ignore_unknown_values''
     = Some (PBool iu)"
    "map_of (heap (snd (upload_gcs_json sdk b bl p d t af iu ad sp aw cpa jpa st))
        (arg_or_default cpa upload_gcs_json_default_config_params)) ''autodetect''
     = Some (PBool ad)"
    by (simp_all add: upload_heap_frame config_sf config_iu config_ad)
  have passed: "map_of kw ''source_format'' = Some (NEWLINE_DELIMITED_JSON sdk)
              \<and> map_of kw ''ignore_unknown_values'' = Some (PBool iu)
              \<and> map_of kw ''autodetect'' = Some (PBool ad)"
    if "NewLoadJobConfig kw \<in> set (new_calls st
               (snd (upload_gcs_json sdk b bl p d t af iu ad sp aw cpa jpa st)))" for kw
    using upload_config_kwargs [OF that] config_sf [of sdk af iu ad sp _ st]
      config_iu [of sdk af iu ad sp _ st] config_ad [of sdk af iu ad sp _ st]
    by auto
  from final passed show ?thesis by blast
qed

theorem upload_gcs_json_explicit_arguments_witness:
  "NewLoadJobConfig example_config \<in> set (new_calls example_state (snd example_upload))
   \<and> map_of (heap example_state 5) ''source_format'' = Some (PStr ''CSV'')
   \<and> map_of (heap example_state 5) ''ignore_unknown_values'' = Some (PBool False)
   \<and> map_of (heap example_state 5) ''autodetect'' = Some (PBool True)
   \<and> map_of example_config ''source_format'' = Some (NEWLINE_DELIMITED_JSON example_sdk)
   \<and> map_of example_config ''ignore_unknown_values'' = Some (PBool True)
   \<and> map_of example_config ''autodetect'' = Some (PBool False)"
proof -
  have mem: "NewLoadJobConfig example_config \<in> set (new_calls example_state (snd example_upload))"
    by (simp add: example_upload_calls)
  from upload_gcs_json_explicit_arguments [of example_sdk "''bucket''" "''data.json''"
      "''proj''" "''ds''" "''events''" True True False None True "Some 5" "Some 6" example_state] mem
  have "map_of example_config ''source_format'' = Some (NEWLINE_DELIMITED_JSON example_sdk)
      \<and> map_of example_config ''ignore_unknown_values'' = Some (PBool True)
      \<and> map_of example_config ''autodetect'' = Some (PBool False)"
    by simp
  with mem show ?thesis by (simp add: example_state_def)
qed

text \<open>
  Claim C3. When the job that \<open>_monitor_job\<close> waits for fails with a bad request, the
  list \<open>job.errors\<close> is logged as an error and a \<open>SystemError\<close> with the message
  \<open>Import failed with BadRequest exception. See error data in logs.\<close> is raised; when
  it fails with anything else, that same error is raised and nothing is logged.
\<close>

theorem monitor_job_errors:
  "(\<forall>e. job_result job = Inl e \<and> exc_class e = BadRequest \<longrightarrow>
        monitor_job job st =
          (Inl (PyExc SystemError
                  ''Import failed with BadRequest exception. See error data in logs.''),
           st\<lparr>logged := logged st @ [(ERROR, [Fmt (job_errors job)])],
              calls := calls st @ [JobResult]\<rparr>))
   \<and> (\<forall>e. job_result job = Inl e \<and> exc_class e \<noteq> BadRequest \<longrightarrow>
        monitor_job job st = (Inl e, st\<lparr>calls := calls st @ [JobResult]\<rparr>))"
  by (simp add: monitor_job_def Let_def sdk_called_def log_msg_def)

theorem monitor_job_errors_witness:
  "job_result example_bad_job = Inl (PyExc BadRequest ''400 Error while reading data'')
   \<and> exc_class (PyExc BadRequest ''400 Error while reading data'') = BadRequest
   \<and> monitor_job example_bad_job example_state =
        (Inl (PyExc SystemError
                ''Import failed with BadRequest exception. See error data in logs.''),
         example_state\<lparr>logged := logged example_state @ [(ERROR, [Fmt (job_errors example_bad_job)])],
                        calls := calls example_state @ [JobResult]\<rparr>)
   \<and> job_result example_denied_job = Inl (PyExc (OtherException ''Forbidden'') ''403 Access Denied'')
   \<and> exc_class (PyExc (OtherException ''Forbidden'') ''403 Access Denied'') \<noteq> BadRequest
   \<and> monitor_job example_denied_job example_state =
        (Inl (PyExc (OtherException ''Forbidden'') ''403 Access Denied''),
         example_state\<lparr>calls := calls example_state @ [JobResult]\<rparr>)"
proof -
  have bad: "job_result example_bad_job = Inl (PyExc BadRequest ''400 Error while reading data'')
      \<and> exc_class (PyExc BadRequest ''400 Error while reading data'') = BadRequest"
    by (simp add: example_bad_job_def)
  have denied: "job_result example_denied_job
        = Inl (PyExc (OtherException ''Forbidden'') ''403 Access Denied'')
      \<and> exc_class (PyExc (OtherException ''Forbidden'') ''403 Access Denied'') \<noteq> BadRequest"
    by (simp add: example_denied_job_def)
  from monitor_job_errors [of example_bad_job example_state] bad
    monitor_job_errors [of example_denied_job example_state] denied
  show ?thesis by blast
qed

text \<open>
  Claim C7. \<open>get_schema(project, dataset, table)\<close> asks the handle for the table named
  \<open>project.dataset.table\<close>, and does nothing else; it returns the schema of the table
  it gets, and when the handle raises instead, that same error is raised.
\<close>

theorem get_schema_table_name:
  "snd (get_schema sdk p d t st) = st\<lparr>calls := calls st @ [GetTable (p @ ''.'' @ d @ ''.'' @ t)]\<rparr>
   \<and> (\<forall>tb. client_get_table sdk (p @ ''.'' @ d @ ''.'' @ t) = Inr tb
         \<longrightarrow> fst (get_schema sdk p d t st) = Inr (schema tb))
   \<and> (\<forall>e. client_get_table sdk (p @ ''.'' @ d @ ''.'' @ t) = Inl e
         \<longrightarrow> fst (get_schema sdk p d t st) = Inl e)"
  by (simp add: get_schema_def Let_def sdk_called_def split: sum.splits)

theorem get_schema_table_name_witness:
  "client_get_table example_sdk (''proj'' @ ''.'' @ ''ds'' @ ''.'' @ ''events'')
     = Inr (Table ''proj.ds.events'' (PList [PStr ''id'', PStr ''name'']))
   \<and> fst (get_schema example_sdk ''proj'' ''ds'' ''events'' example_state)
     = Inr (PList [PStr ''id'', PStr ''name''])
   \<and> client_get_table example_sdk (''proj'' @ ''.'' @ ''ds'' @ ''.'' @ ''nope'')
     = Inl (PyExc (OtherException ''NotFound'') ''Not found: Table proj.ds.nope'')
   \<and> fst (get_schema example_sdk ''proj'' ''ds'' ''nope'' example_state)
     = Inl (PyExc (OtherException ''NotFound'') ''Not found: Table proj.ds.nope'')"
  using get_schema_table_name [of example_sdk "''proj''" "''ds''" "''events''" example_state]
    get_schema_table_name [of example_sdk "''proj''" "''ds''" "''nope''" example_state]
    example_lookups(1,2)
  by simp

text \<open>
  Claim C8. The keyword arguments with which \<open>upload_gcs_json\<close> submits the load job
  come from \<open>job_params\<close>, whatever the caller had put there: \<open>source_uris\<close> is
  \<open>gs://bucket_name/blob_name\<close>, \<open>destination\<close> is the table the handle returned for
  \<open>project.dataset.table\<close>, and \<open>job_config\<close> is the object that
  \<open>bigquery.LoadJobConfig\<close> made of the dictionary \<open>config_params\<close> as it stood after
  lines 107 to 133. The load job is submitted whenever the handle returns the table,
  the configuration object is made, and the caller's dictionaries have no key \<open>self\<close>
  or \<open>await_result\<close> that would clash with the arguments of the helper methods.
\<close>

theorem upload_gcs_json_load_kwargs:
  "(\<forall>kw. LoadTableFromUri kw \<in> set (new_calls st
            (snd (upload_gcs_json sdk b bl p d t af iu ad sp aw cpa jpa st)))
     \<longrightarrow> (\<exists>tb cfg.
            client_get_table sdk (p @ ''.'' @ d @ ''.'' @ t) = Inr tb
          \<and> bigquery_LoadJobConfig sdk
               (heap (dict_setitem (arg_or_default jpa upload_gcs_json_default_job_params)
                        ''destination'' (PTable tb)
                     (dict_setitem (arg_or_default jpa upload_gcs_json_default_job_params)
                        ''source_uris'' (PStr (''gs://'' @ b @ ''/'' @ bl))
                     (upload_gcs_json_config sdk af iu ad sp
                        (arg_or_default cpa upload_gcs_json_default_config_params) st)))
                  (arg_or_default cpa upload_gcs_json_default_config_params)) = Inr cfg
          \<and> map_of kw ''source_uris'' = Some (PStr (''gs://'' @ b @ ''/'' @ bl))
          \<and> map_of kw ''destination'' = Some (PTable tb)
          \<and> map_of kw ''job_config'' = Some cfg))
   \<and> (\<forall>tb cfg.
          client_get_table sdk (p @ ''.'' @ d @ ''.'' @ t) = Inr tb
        \<and> bigquery_LoadJobConfig sdk
             (heap (dict_setitem (arg_or_default jpa upload_gcs_json_default_job_params)
                      ''destination'' (PTable tb)
                   (dict_setitem (arg_or_default jpa upload_gcs_json_default_job_params)
                      ''source_uris'' (PStr (''gs://'' @ b @ ''/'' @ bl))
                   (upload_gcs_json_config sdk af iu ad sp
                      (arg_or_default cpa upload_gcs_json_default_config_params) st)))
                (arg_or_default cpa upload_gcs_json_default_config_params)) = Inr cfg
        \<and> \<not> dict_contains ''self''
              (heap st (arg_or_default cpa upload_gcs_json_default_config_params))
        \<and> \<not> dict_contains ''self''
              (heap st (arg_or_default jpa upload_gcs_json_default_job_params))
        \<and> \<not> dict_contains ''await_result''
              (heap st (arg_or_default jpa upload_gcs_json_default_job_params))
        \<longrightarrow> (\<exists>kw. LoadTableFromUri kw \<in> set (new_calls st
                 (snd (upload_gcs_json sdk b bl p d t af iu ad sp aw cpa jpa st)))))"
proof (rule conjI)
  show "\<forall>kw. LoadTableFromUri kw \<in> set (new_calls st
            (snd (upload_gcs_json sdk b bl p d t af iu ad sp aw cpa jpa st)))
     \<longrightarrow> (\<exists>tb cfg.
            client_get_table sdk (p @ ''.'' @ d @ ''.'' @ t) = Inr tb
          \<and> bigquery_LoadJobConfig sdk
               (heap (dict_setitem (arg_or_default jpa upload_gcs_json_default_job_params)
                        ''destination'' (PTable tb)
                     (dict_setitem (arg_or_default jpa upload_gcs_json_default_job_params)
                        ''source_uris'' (PStr (''gs://'' @ b @ ''/'' @ bl))
                     (upload_gcs_json_config sdk af iu ad sp
                        (arg_or_default cpa upload_gcs_json_default_config_params) st)))
                  (arg_or_default cpa upload_gcs_json_default_config_params)) = Inr cfg
          \<and> map_of kw ''source_uris'' = Some (PStr (''gs://'' @ b @ ''/'' @ bl))
          \<and> map_of kw ''destination'' = Some (PTable tb)
          \<and> map_of kw ''job_config'' = Some cfg)"
  proof (intro allI impI)
    fix kw
    assume "LoadTableFromUri kw \<in> set (new_calls st
              (snd (upload_gcs_json sdk b bl p d t af iu ad sp aw cpa jpa st)))"
    from upload_load_kwargs [OF this] obtain u st6 where
      ph: "upload_gcs_json_job_params sdk (''gs://'' @ b @ ''/'' @ bl) (p @ ''.'' @ d @ ''.'' @ t)
                 (arg_or_default cpa upload_gcs_json_default_config_params)
                 (arg_or_default jpa upload_gcs_json_default_job_params)
                 (upload_gcs_json_config sdk af iu ad sp
                    (arg_or_default cpa upload_gcs_json_default_config_params) st) = (Inr u, st6)"
      and kw: "kw = heap st6 (arg_or_default jpa upload_gcs_json_default_job_params)"
      by blast
    from job_params_ok [OF ph] kw
    show "\<exists>tb cfg.
              client_get_table sdk (p @ ''.'' @ d @ ''.'' @ t) = Inr tb
            \<and> bigquery_LoadJobConfig sdk
                 (heap (dict_setitem (arg_or_default jpa upload_gcs_json_default_job_params)
                          ''destination'' (PTable tb)
                       (dict_setitem (arg_or_default jpa upload_gcs_json_default_job_params)
                          ''source_uris'' (PStr (''gs://'' @ b @ ''/'' @ bl))
                       (upload_gcs_json_config sdk af iu ad sp
                          (arg_or_default cpa upload_gcs_json_default_config_params) st)))
                    (arg_or_default cpa upload_gcs_json_default_config_params)) = Inr cfg
            \<and> map_of kw ''source_uris'' = Some (PStr (''gs://'' @ b @ ''/'' @ bl))
            \<and> map_of kw ''destination'' = Some (PTable tb)
            \<and> map_of kw ''job_config'' = Some cfg"
      by blast
  qed
next
  show "\<forall>tb cfg.
          client_get_table sdk (p @ ''.'' @ d @ ''.'' @ t) = Inr tb
        \<and> bigquery_LoadJobConfig sdk
             (heap (dict_setitem (arg_or_default jpa upload_gcs_json_default_job_params)
                      ''destination'' (PTable tb)
                   (dict_setitem (arg_or_default jpa upload_gcs_json_default_job_params)
                      ''source_uris'' (PStr (''gs://'' @ b @ ''/'' @ bl))
                   (upload_gcs_json_config sdk af iu ad sp
                      (arg_or_default cpa upload_gcs_json_default_config_params) st)))
                (arg_or_default cpa upload_gcs_json_default_config_params)) = Inr cfg
        \<and> \<not> dict_contains ''self''
              (heap st (arg_or_default cpa upload_gcs_json_default_config_params))
        \<and> \<not> dict_contains ''self''
              (heap st (arg_or_default jpa upload_gcs_json_default_job_params))
        \<and> \<not> dict_contains ''await_result''
              (heap st (arg_or_default jpa upload_gcs_json_default_job_params))
        \<longrightarrow> (\<exists>kw. LoadTableFromUri kw \<in> set (new_calls st
                 (snd (upload_gcs_json sdk b bl p d t af iu ad sp aw cpa jpa st))))"
  proof (intro allI impI, elim conjE)
    fix tb cfg
    assume "client_get_table sdk (p @ ''.'' @ d @ ''.'' @ t) = Inr tb"
      and "bigquery_LoadJobConfig sdk
             (heap (dict_setitem (arg_or_default jpa upload_gcs_json_default_job_params)
                      ''destination'' (PTable tb)
                   (dict_setitem (arg_or_default jpa upload_gcs_json_default_job_params)
                      ''source_uris'' (PStr (''gs://'' @ b @ ''/'' @ bl))
                   (upload_gcs_json_config sdk af iu ad sp
                      (arg_or_default cpa upload_gcs_json_default_config_params) st)))
                (arg_or_default cpa upload_gcs_json_default_config_params)) = Inr cfg"
      and "\<not> dict_contains ''self''
              (heap st (arg_or_default cpa upload_gcs_json_default_config_params))"
      and "\<not> dict_contains ''self''
              (heap st (arg_or_default jpa upload_gcs_json_default_job_params))"
      and "\<not> dict_contains ''await_result''
              (heap st (arg_or_default jpa upload_gcs_json_default_job_params))"
    then show "\<exists>kw. LoadTableFromUri kw \<in> set (new_calls st
                 (snd (upload_gcs_json sdk b bl p d t af iu ad sp aw cpa jpa st)))"
      by (rule upload_submits)
  qed
qed

theorem upload_gcs_json_load_kwargs_witness:
  "client_get_table example_sdk (''proj'' @ ''.'' @ ''ds'' @ ''.'' @ ''events'')
     = Inr (Table ''proj.ds.events'' (PList [PStr ''id'', PStr ''name'']))
   \<and> \<not> dict_contains ''self''
        (heap example_state (arg_or_default (Some 5) upload_gcs_json_default_config_params))
   \<and> \<not> dict_contains ''self''
        (heap example_state (arg_or_default (Some 6) upload_gcs_json_default_job_params))
   \<and> \<not> dict_contains ''await_result''
        (heap example_state (arg_or_default (Some 6) upload_gcs_json_default_job_params))
   \<and> (\<exists>kw. LoadTableFromUri kw \<in> set (new_calls example_state (snd example_upload)))
   \<and> LoadTableFromUri example_job_kwargs \<in> set (new_calls example_state (snd example_upload))
   \<and> map_of (heap example_state 6) ''source_uris'' = Some (PStr ''gs://elsewhere/x'')
   \<and> map_of (heap example_state 6) ''destination'' = Some (PStr ''proj.ds.other'')
   \<and> map_of (heap example_state 6) ''job_config'' = Some PNone
   \<and> map_of example_job_kwargs ''source_uris'' = Some (PStr ''gs://bucket/data.json'')
   \<and> map_of example_job_kwargs ''destination''
       = Some (PTable (Table ''proj.ds.events'' (PList [PStr ''id'', PStr ''name''])))
   \<and> map_of example_job_kwargs ''job_config'' = Some (PObject ''LoadJobConfig'' example_config)"
proof -
  note run = upload_gcs_json_load_kwargs [of example_state example_sdk "''bucket''" "''data.json''"
      "''proj''" "''ds''" "''events''" True True False None True "Some 5" "Some 6"]
  have mem: "LoadTableFromUri example_job_kwargs
      \<in> set (new_calls example_state (snd example_upload))"
    by (simp add: example_upload_calls)
  have clash: "\<not> dict_contains ''self''
        (heap example_state (arg_or_default (Some 5) upload_gcs_json_default_config_params))"
    "\<not> dict_contains ''self''
        (heap example_state (arg_or_default (Some 6) upload_gcs_json_default_job_params))"
    "\<not> dict_contains ''await_result''
        (heap example_state (arg_or_default (Some 6) upload_gcs_json_default_job_params))"
    by (simp_all add: arg_or_default_def example_state_def dict_contains_def)
  have made: "bigquery_LoadJobConfig example_sdk kw = Inr (PObject ''LoadJobConfig'' kw)" for kw
    by (simp add: example_sdk_def)
  from run [THEN conjunct2, THEN spec, THEN spec, THEN mp,
      OF conjI [OF example_lookups(1) conjI [OF made conjI [OF clash(1)
        conjI [OF clash(2) clash(3)]]]]]
  have submitted: "\<exists>kw. LoadTableFromUri kw \<in> set (new_calls example_state (snd example_upload))" .
  from run [THEN conjunct1, THEN spec, THEN mp, OF mem]
  obtain tb cfg where
    "client_get_table example_sdk (''proj'' @ ''.'' @ ''ds'' @ ''.'' @ ''events'') = Inr tb"
    "map_of example_job_kwargs ''source_uris'' = Some (PStr (''gs://'' @ ''bucket'' @ ''/'' @ ''data.json''))"
    "map_of example_job_kwargs ''destination'' = Some (PTable tb)"
    "map_of example_job_kwargs ''job_config'' = Some cfg"
    by blast
  with mem submitted clash show ?thesis
    by (simp add: example_state_def example_job_kwargs_def example_lookups)
qed

text \<open>
  Claim C10. \<open>upload_gcs_json\<close> asks the handle for the destination table in every
  call, and submits no load job before that. So when the handle raises for the table,
  the call raises that same error and no load job is submitted, whether or not
  \<open>autodetect_schema\<close> is set.
\<close>

theorem upload_gcs_json_table_lookup_first:
  "(\<exists>pre post. new_calls st (snd (upload_gcs_json sdk b bl p d t af iu ad sp aw cpa jpa st))
        = pre @ GetTable (p @ ''.'' @ d @ ''.'' @ t) # post
      \<and> (\<forall>kw. LoadTableFromUri kw \<notin> set pre))
   \<and> (\<forall>e. client_get_table sdk (p @ ''.'' @ d @ ''.'' @ t) = Inl e
        \<longrightarrow> fst (upload_gcs_json sdk b bl p d t af iu ad sp aw cpa jpa st) = Inl e
          \<and> (\<forall>kw. LoadTableFromUri kw \<notin> set (new_calls st
                 (snd (upload_gcs_json sdk b bl p d t af iu ad sp aw cpa jpa st)))))"
proof (intro conjI allI impI)
  from upload_new_calls [of st sdk b bl p d t af iu ad sp aw cpa jpa]
  obtain cs where "new_calls st (snd (upload_gcs_json sdk b bl p d t af iu ad sp aw cpa jpa st)) =
           (case sp of None \<Rightarrow> [] | Some path \<Rightarrow> if path = [] then [] else [SchemaFromJson path])
           @ GetTable (p @ ''.'' @ d @ ''.'' @ t) #
             (case client_get_table sdk (p @ ''.'' @ d @ ''.'' @ t) of
                Inl e \<Rightarrow> []
              | Inr tb \<Rightarrow>
                  let c = heap (dict_setitem (arg_or_default jpa upload_gcs_json_default_job_params)
                              ''destination'' (PTable tb)
                            (dict_setitem (arg_or_default jpa upload_gcs_json_default_job_params)
                              ''source_uris'' (PStr (''gs://'' @ b @ ''/'' @ bl))
                            (upload_gcs_json_config sdk af iu ad sp
                              (arg_or_default cpa upload_gcs_json_default_config_params) st)))
                          (arg_or_default cpa upload_gcs_json_default_config_params)
                  in if dict_contains ''self'' c then [] else [NewLoadJobConfig c])
           @ cs"
    by blast
  then show "\<exists>pre post. new_calls st (snd (upload_gcs_json sdk b bl p d t af iu ad sp aw cpa jpa st))
        = pre @ GetTable (p @ ''.'' @ d @ ''.'' @ t) # post
      \<and> (\<forall>kw. LoadTableFromUri kw \<notin> set pre)"
    by (intro exI [of _ "case sp of None \<Rightarrow> [] | Some path \<Rightarrow> if path = [] then [] else [SchemaFromJson path]"] exI)
       (auto split: option.splits)
next
  fix e assume "client_get_table sdk (p @ ''.'' @ d @ ''.'' @ t) = Inl e"
  then show "fst (upload_gcs_json sdk b bl p d t af iu ad sp aw cpa jpa st) = Inl e"
    by (rule upload_lookup_fails)
next
  fix e kw assume e: "client_get_table sdk (p @ ''.'' @ d @ ''.'' @ t) = Inl e"
  show "LoadTableFromUri kw \<notin> set (new_calls st
                 (snd (upload_gcs_json sdk b bl p d t af iu ad sp aw cpa jpa st)))"
  proof
    assume "LoadTableFromUri kw \<in> set (new_calls st
                 (snd (upload_gcs_json sdk b bl p d t af iu ad sp aw cpa jpa st)))"
    from upload_load_kwargs [OF this] obtain u st6 where
      "upload_gcs_json_job_params sdk (''gs://'' @ b @ ''/'' @ bl) (p @ ''.'' @ d @ ''.'' @ t)
               (arg_or_default cpa upload_gcs_json_default_config_params)
               (arg_or_default jpa upload_gcs_json_default_job_params)
               (upload_gcs_json_config sdk af iu ad sp
                  (arg_or_default cpa upload_gcs_json_default_config_params) st) = (Inr u, st6)"
      by blast
    from job_params_ok [OF this] e show False by auto
  qed
qed

theorem upload_gcs_json_table_lookup_first_witness:
  "client_get_table example_sdk (''proj'' @ ''.'' @ ''ds'' @ ''.'' @ ''nope'')
     = Inl (PyExc (OtherException ''NotFound'') ''Not found: Table proj.ds.nope'')
   \<and> fst example_missing_table
     = Inl (PyExc (OtherException ''NotFound'') ''Not found: Table proj.ds.nope'')
   \<and> LoadTableFromUri example_job_kwargs
     \<notin> set (new_calls example_state (snd example_missing_table))"
  using upload_gcs_json_table_lookup_first [of example_state example_sdk "''bucket''"
      "''data.json''" "''proj''" "''ds''" "''nope''" True True True "Some ''schema.json''" True
      None None] example_lookups(2)
  by blast

text \<open>
  Claim C5. With \<open>await_result\<close> false, \<open>query\<close> builds the configuration, submits the
  query, never asks for the result of the job and returns \<open>None\<close>. With \<open>await_result\<close>
  true the documented return value is one dictionary for each row; but line 184 takes
  \<open>len(results)\<close> before any row is read, so when the result set has no length, as the
  SDK's \<open>RowIterator\<close> has none, the call raises that error once the job has run and
  its result has been fetched, and returns no rows.
\<close>

theorem query_awaited_result_needs_len:
  "(\<forall>c job.
        bigquery_QueryJobConfig sdk
          (if dict_contains ''priority'' (heap st (arg_or_default qca query_default_query_config))
           then heap st (arg_or_default qca query_default_query_config)
           else AList.update ''priority'' (PStr ''BATCH'')
                  (heap st (arg_or_default qca query_default_query_config)))
          = Inr c
        \<and> client_query sdk q c = Inr job
        \<longrightarrow> fst (query sdk q qca False st) = Inr None
          \<and> new_calls st (snd (query sdk q qca False st))
            = [NewQueryJobConfig
                 (if dict_contains ''priority''
                       (heap st (arg_or_default qca query_default_query_config))
                  then heap st (arg_or_default qca query_default_query_config)
                  else AList.update ''priority'' (PStr ''BATCH'')
                         (heap st (arg_or_default qca query_default_query_config))),
               Query q c])
   \<and> (\<forall>c job rs e.
        (if heap st (arg_or_default qca query_default_query_config) = [] then c = PNone
         else bigquery_QueryJobConfig sdk
                (heap st (arg_or_default qca query_default_query_config)) = Inr c)
        \<and> client_query sdk q c = Inr job \<and> job_result job = Inr rs \<and> ri_len rs = Inl e
        \<longrightarrow> fst (query sdk q qca True st) = Inl e
          \<and> new_calls st (snd (query sdk q qca True st))
            = (if heap st (arg_or_default qca query_default_query_config) = [] then []
               else [NewQueryJobConfig (heap st (arg_or_default qca query_default_query_config))])
              @ [Query q c, JobResult])"
proof (intro conjI allI impI)
  fix c job
  assume a: "bigquery_QueryJobConfig sdk
          (if dict_contains ''priority'' (heap st (arg_or_default qca query_default_query_config))
           then heap st (arg_or_default qca query_default_query_config)
           else AList.update ''priority'' (PStr ''BATCH'')
                  (heap st (arg_or_default qca query_default_query_config)))
          = Inr c
        \<and> client_query sdk q c = Inr job"
  have h: "heap (snd (query sdk q qca False st)) (arg_or_default qca query_default_query_config)
      = (if dict_contains ''priority'' (heap st (arg_or_default qca query_default_query_config))
         then heap st (arg_or_default qca query_default_query_config)
         else AList.update ''priority'' (PStr ''BATCH'')
                (heap st (arg_or_default qca query_default_query_config)))"
    by (simp add: query_heap)
  have ne: "heap (snd (query sdk q qca False st)) (arg_or_default qca query_default_query_config)
      \<noteq> []"
    by (rule query_no_wait_nonempty)
  from a h ne query_fst [of sdk q qca False st]
  show "fst (query sdk q qca False st) = Inr None"
    by (simp add: Let_def)
  from a h ne query_calls [of st sdk q qca False]
  show "new_calls st (snd (query sdk q qca False st))
            = [NewQueryJobConfig
                 (if dict_contains ''priority''
                       (heap st (arg_or_default qca query_default_query_config))
                  then heap st (arg_or_default qca query_default_query_config)
                  else AList.update ''priority'' (PStr ''BATCH'')
                         (heap st (arg_or_default qca query_default_query_config))),
               Query q c]"
    by (simp add: Let_def)
next
  fix c job rs e
  assume a: "(if heap st (arg_or_default qca query_default_query_config) = [] then c = PNone
         else bigquery_QueryJobConfig sdk
                (heap st (arg_or_default qca query_default_query_config)) = Inr c)
        \<and> client_query sdk q c = Inr job \<and> job_result job = Inr rs \<and> ri_len rs = Inl e"
  have h: "heap (snd (query sdk q qca True st)) = heap st"
    by (simp add: query_heap)
  from a query_fst [of sdk q qca True st]
  show "fst (query sdk q qca True st) = Inl e"
    by (auto simp: Let_def h split: if_splits)
  from a query_calls [of st sdk q qca True]
  show "new_calls st (snd (query sdk q qca True st))
            = (if heap st (arg_or_default qca query_default_query_config) = [] then []
               else [NewQueryJobConfig (heap st (arg_or_default qca query_default_query_config))])
              @ [Query q c, JobResult]"
    by (auto simp: Let_def h split: if_splits)
qed

theorem query_awaited_result_needs_len_witness:
  "bigquery_QueryJobConfig example_sdk
      (if dict_contains ''priority''
            (heap example_state (arg_or_default None query_default_query_config))
       then heap example_state (arg_or_default None query_default_query_config)
       else AList.update ''priority'' (PStr ''BATCH'')
              (heap example_state (arg_or_default None query_default_query_config)))
      = Inr (PObject ''QueryJobConfig'' [(''priority'', PStr ''BATCH'')])
   \<and> client_query example_sdk ''DELETE FROM t WHERE id = 0''
        (PObject ''QueryJobConfig'' [(''priority'', PStr ''BATCH'')])
      = Inr \<lparr>job_result = Inr example_rows, job_errors = PNone\<rparr>
   \<and> fst example_batch_query = Inr None
   \<and> new_calls example_state (snd example_batch_query)
      = [NewQueryJobConfig [(''priority'', PStr ''BATCH'')],
         Query ''DELETE FROM t WHERE id = 0''
           (PObject ''QueryJobConfig'' [(''priority'', PStr ''BATCH'')])]
   \<and> heap example_state (arg_or_default None query_default_query_config) = []
   \<and> client_query example_sdk ''SELECT id, name FROM t'' PNone
      = Inr \<lparr>job_result = Inr example_rows, job_errors = PNone\<rparr>
   \<and> ri_len example_rows = Inl (PyExc TypeError ''object of type 'RowIterator' has no len()'')
   \<and> fst example_rows_query
      = Inl (PyExc TypeError ''object of type 'RowIterator' has no len()'')
   \<and> new_calls example_state (snd example_rows_query)
      = [Query ''SELECT id, name FROM t'' PNone, JobResult]"
proof -
  have cfg: "bigquery_QueryJobConfig example_sdk
      (if dict_contains ''priority''
            (heap example_state (arg_or_default None query_default_query_config))
       then heap example_state (arg_or_default None query_default_query_config)
       else AList.update ''priority'' (PStr ''BATCH'')
              (heap example_state (arg_or_default None query_default_query_config)))
      = Inr (PObject ''QueryJobConfig'' [(''priority'', PStr ''BATCH'')])"
    by (simp add: example_rows_query_heap(1) dict_contains_def) (simp add: example_sdk_def)
  have sub: "client_query example_sdk ''DELETE FROM t WHERE id = 0''
        (PObject ''QueryJobConfig'' [(''priority'', PStr ''BATCH'')])
      = Inr \<lparr>job_result = Inr example_rows, job_errors = PNone\<rparr>"
    "client_query example_sdk ''SELECT id, name FROM t'' PNone
      = Inr \<lparr>job_result = Inr example_rows, job_errors = PNone\<rparr>"
    by (simp_all add: example_sdk_def)
  have len: "ri_len example_rows
      = Inl (PyExc TypeError ''object of type 'RowIterator' has no len()'')"
    by (simp add: example_rows_def)
  have res: "job_result \<lparr>job_result = Inr example_rows, job_errors = PNone\<rparr> = Inr example_rows"
    by simp
  have plain: "if heap example_state (arg_or_default None query_default_query_config) = []
      then PNone = PNone
      else bigquery_QueryJobConfig example_sdk
             (heap example_state (arg_or_default None query_default_query_config)) = Inr PNone"
    by (simp add: example_rows_query_heap(1))
  note batch = query_awaited_result_needs_len [of example_sdk example_state None
      "''DELETE FROM t WHERE id = 0''",
      THEN conjunct1, THEN spec, THEN spec, THEN mp, OF conjI [OF cfg sub(1)]]
  note awaited = query_awaited_result_needs_len [of example_sdk example_state None
      "''SELECT id, name FROM t''",
      THEN conjunct2, THEN spec, THEN spec, THEN spec, THEN spec, THEN mp,
      OF conjI [OF plain conjI [OF sub(2) conjI [OF res len]]]]
  from batch [THEN conjunct2]
  have batch_calls: "new_calls example_state (snd example_batch_query)
      = [NewQueryJobConfig [(''priority'', PStr ''BATCH'')],
         Query ''DELETE FROM t WHERE id = 0''
           (PObject ''QueryJobConfig'' [(''priority'', PStr ''BATCH'')])]"
    by (simp add: example_rows_query_heap(1) dict_contains_def)
  from awaited [THEN conjunct2]
  have awaited_calls: "new_calls example_state (snd example_rows_query)
      = [Query ''SELECT id, name FROM t'' PNone, JobResult]"
    by (simp add: example_rows_query_heap(1))
  show ?thesis
    by (rule conjI [OF cfg conjI [OF sub(1) conjI [OF batch [THEN conjunct1]
          conjI [OF batch_calls conjI [OF example_rows_query_heap(1) conjI [OF sub(2)
          conjI [OF len conjI [OF awaited [THEN conjunct1] awaited_calls]]]]]]]])
qed

text \<open>
  Claim C6. The mapping from which \<open>query\<close> builds its configuration is the caller's
  \<open>query_config\<close>, to which \<open>priority = "BATCH"\<close> is added when \<open>await_result\<close> is
  false and the mapping has no \<open>priority\<close>. When that mapping is not empty,
  \<open>bigquery.QueryJobConfig\<close> is called with it and, once that returns an object, the
  query goes out with that object and no other; when it is empty, no configuration
  object is made and the query goes out with \<open>None\<close> in its place.
\<close>

theorem query_config_assembly:
  "heap (snd (query sdk q qca aw st)) (arg_or_default qca query_default_query_config)
     = (if \<not> aw \<and> \<not> dict_contains ''priority''
                        (heap st (arg_or_default qca query_default_query_config))
        then AList.update ''priority'' (PStr ''BATCH'')
               (heap st (arg_or_default qca query_default_query_config))
        else heap st (arg_or_default qca query_default_query_config))
   \<and> (\<not> dict_contains ''priority'' (heap st (arg_or_default qca query_default_query_config))
      \<longrightarrow> map_of (heap (snd (query sdk q qca False st))
                    (arg_or_default qca query_default_query_config)) ''priority''
            = Some (PStr ''BATCH'')
        \<and> NewQueryJobConfig (heap (snd (query sdk q qca False st))
                               (arg_or_default qca query_default_query_config))
            \<in> set (new_calls st (snd (query sdk q qca False st))))
   \<and> (heap (snd (query sdk q qca aw st)) (arg_or_default qca query_default_query_config) \<noteq> []
      \<longrightarrow> NewQueryJobConfig (heap (snd (query sdk q qca aw st))
                               (arg_or_default qca query_default_query_config))
            \<in> set (new_calls st (snd (query sdk q qca aw st)))
        \<and> (\<forall>q' c. Query q' c \<in> set (new_calls st (snd (query sdk q qca aw st)))
              \<longrightarrow> q' = q
                \<and> bigquery_QueryJobConfig sdk
                     (heap (snd (query sdk q qca aw st))
                        (arg_or_default qca query_default_query_config)) = Inr c)
        \<and> (\<forall>c. bigquery_QueryJobConfig sdk
                   (heap (snd (query sdk q qca aw st))
                      (arg_or_default qca query_default_query_config)) = Inr c
              \<longrightarrow> Query q c \<in> set (new_calls st (snd (query sdk q qca aw st)))))
   \<and> (heap (snd (query sdk q qca aw st)) (arg_or_default qca query_default_query_config) = []
      \<longrightarrow> (\<forall>d. NewQueryJobConfig d \<notin> set (new_calls st (snd (query sdk q qca aw st))))
        \<and> Query q PNone \<in> set (new_calls st (snd (query sdk q qca aw st)))
        \<and> (\<forall>q' c. Query q' c \<in> set (new_calls st (snd (query sdk q qca aw st)))
              \<longrightarrow> q' = q \<and> c = PNone))"
proof (intro conjI impI)
  show "heap (snd (query sdk q qca aw st)) (arg_or_default qca query_default_query_config)
     = (if \<not> aw \<and> \<not> dict_contains ''priority''
                        (heap st (arg_or_default qca query_default_query_config))
        then AList.update ''priority'' (PStr ''BATCH'')
               (heap st (arg_or_default qca query_default_query_config))
        else heap st (arg_or_default qca query_default_query_config))"
    by (simp add: query_heap)
next
  assume "\<not> dict_contains ''priority'' (heap st (arg_or_default qca query_default_query_config))"
  then show "map_of (heap (snd (query sdk q qca False st))
                    (arg_or_default qca query_default_query_config)) ''priority''
            = Some (PStr ''BATCH'')"
    by (simp add: query_heap)
next
  show "NewQueryJobConfig (heap (snd (query sdk q qca False st))
                               (arg_or_default qca query_default_query_config))
            \<in> set (new_calls st (snd (query sdk q qca False st)))"
    using query_no_wait_nonempty [of sdk q qca st]
    by (simp add: query_calls [of st sdk q qca False] Let_def)
next
  assume "heap (snd (query sdk q qca aw st)) (arg_or_default qca query_default_query_config) \<noteq> []"
  then show "NewQueryJobConfig (heap (snd (query sdk q qca aw st))
                               (arg_or_default qca query_default_query_config))
            \<in> set (new_calls st (snd (query sdk q qca aw st)))"
    by (simp add: query_calls [of st sdk q qca aw] Let_def)
next
  assume ne: "heap (snd (query sdk q qca aw st)) (arg_or_default qca query_default_query_config) \<noteq> []"
  show "\<forall>q' c. Query q' c \<in> set (new_calls st (snd (query sdk q qca aw st)))
              \<longrightarrow> q' = q
                \<and> bigquery_QueryJobConfig sdk
                     (heap (snd (query sdk q qca aw st))
                        (arg_or_default qca query_default_query_config)) = Inr c"
  proof (intro allI impI)
    fix q' c
    assume "Query q' c \<in> set (new_calls st (snd (query sdk q qca aw st)))"
    then have "Query q' c \<in> set
       (let d = heap (snd (query sdk q qca aw st)) (arg_or_default qca query_default_query_config)
        in (if d = [] then [] else [NewQueryJobConfig d])
         @ (case (if d = [] then Inr PNone else bigquery_QueryJobConfig sdk d) of
              Inl e \<Rightarrow> []
            | Inr c \<Rightarrow> Query q c #
                (case client_query sdk q c of
                   Inl e \<Rightarrow> []
                 | Inr job \<Rightarrow> if aw then [JobResult] else [])))"
      by (simp only: query_calls)
    with ne show "q' = q
                \<and> bigquery_QueryJobConfig sdk
                     (heap (snd (query sdk q qca aw st))
                        (arg_or_default qca query_default_query_config)) = Inr c"
      by (auto simp: Let_def split: sum.splits if_splits)
  qed
next
  assume ne: "heap (snd (query sdk q qca aw st)) (arg_or_default qca query_default_query_config) \<noteq> []"
  show "\<forall>c. bigquery_QueryJobConfig sdk
                   (heap (snd (query sdk q qca aw st))
                      (arg_or_default qca query_default_query_config)) = Inr c
              \<longrightarrow> Query q c \<in> set (new_calls st (snd (query sdk q qca aw st)))"
  proof (intro allI impI)
    fix c
    assume c: "bigquery_QueryJobConfig sdk
                   (heap (snd (query sdk q qca aw st))
                      (arg_or_default qca query_default_query_config)) = Inr c"
    have "new_calls st (snd (query sdk q qca aw st)) =
       (let d = heap (snd (query sdk q qca aw st)) (arg_or_default qca query_default_query_config)
        in (if d = [] then [] else [NewQueryJobConfig d])
         @ (case (if d = [] then Inr PNone else bigquery_QueryJobConfig sdk d) of
              Inl e \<Rightarrow> []
            | Inr c \<Rightarrow> Query q c #
                (case client_query sdk q c of
                   Inl e \<Rightarrow> []
                 | Inr job \<Rightarrow> if aw then [JobResult] else [])))"
      by (rule query_calls)
    with ne c show "Query q c \<in> set (new_calls st (snd (query sdk q qca aw st)))"
      by (simp add: Let_def)
  qed
next
  assume e: "heap (snd (query sdk q qca aw st)) (arg_or_default qca query_default_query_config) = []"
  have nc: "new_calls st (snd (query sdk q qca aw st)) =
      Query q PNone # (case client_query sdk q PNone of
                   Inl e \<Rightarrow> []
                 | Inr job \<Rightarrow> if aw then [JobResult] else [])"
    by (simp add: query_calls [of st sdk q qca aw] Let_def e)
  show "\<forall>d. NewQueryJobConfig d \<notin> set (new_calls st (snd (query sdk q qca aw st)))"
    by (auto simp: nc split: sum.splits)
  show "Query q PNone \<in> set (new_calls st (snd (query sdk q qca aw st)))"
    by (simp add: nc)
  show "\<forall>q' c. Query q' c \<in> set (new_calls st (snd (query sdk q qca aw st)))
              \<longrightarrow> q' = q \<and> c = PNone"
    by (auto simp: nc split: sum.splits if_splits)
qed

theorem query_config_assembly_witness:
  "\<not> dict_contains ''priority'' (heap example_state (arg_or_default None query_default_query_config))
   \<and> map_of (heap (snd example_batch_query) (arg_or_default None query_default_query_config))
        ''priority'' = Some (PStr ''BATCH'')
   \<and> heap (snd example_batch_query) (arg_or_default None query_default_query_config) \<noteq> []
   \<and> NewQueryJobConfig [(''priority'', PStr ''BATCH'')]
        \<in> set (new_calls example_state (snd example_batch_query))
   \<and> Query ''DELETE FROM t WHERE id = 0'' (PObject ''QueryJobConfig'' [(''priority'', PStr ''BATCH'')])
        \<in> set (new_calls example_state (snd example_batch_query))
   \<and> bigquery_QueryJobConfig example_sdk [(''priority'', PStr ''BATCH'')]
        = Inr (PObject ''QueryJobConfig'' [(''priority'', PStr ''BATCH'')])
   \<and> heap (snd example_rows_query) (arg_or_default None query_default_query_config) = []
   \<and> Query ''SELECT id, name FROM t'' PNone \<in> set (new_calls example_state (snd example_rows_query))"
proof -
  have absent: "\<not> dict_contains ''priority''
      (heap example_state (arg_or_default None query_default_query_config))"
    by (simp add: example_rows_query_heap(1) dict_contains_def)
  have made: "bigquery_QueryJobConfig example_sdk
        (heap (snd example_batch_query) (arg_or_default None query_default_query_config))
      = Inr (PObject ''QueryJobConfig'' [(''priority'', PStr ''BATCH'')])"
    by (simp add: example_batch_query_heap) (simp add: example_sdk_def)
  have ne: "heap (snd example_batch_query) (arg_or_default None query_default_query_config) \<noteq> []"
    by (simp add: example_batch_query_heap)
  note batch = query_config_assembly [of example_sdk "''DELETE FROM t WHERE id = 0''" None False
      example_state]
  note awaited = query_config_assembly [of example_sdk "''SELECT id, name FROM t''" None True
      example_state]
  note batch_absent = batch [THEN conjunct2, THEN conjunct1, THEN mp, OF absent]
  note batch_built = batch [THEN conjunct2, THEN conjunct2, THEN conjunct1, THEN mp, OF ne]
  note sent = batch_built [THEN conjunct2, THEN conjunct2, THEN spec, THEN mp, OF made]
  note batch_sent = batch_built [THEN conjunct2, THEN conjunct1, THEN spec, THEN spec, THEN mp,
      OF sent]
  note awaited_plain = awaited [THEN conjunct2, THEN conjunct2, THEN conjunct2, THEN mp,
      OF example_rows_query_heap(2)]
  from batch_absent [THEN conjunct1] batch_built [THEN conjunct1] batch_sent [THEN conjunct2]
    awaited_plain [THEN conjunct2, THEN conjunct1] absent ne example_rows_query_heap(2) sent
  show ?thesis
    by (simp add: example_batch_query_heap)
qed

text \<open>
  Claim C4, as the code has it. When \<open>schema_json_path\<close> is given and the handle fails
  to read the schema, the failure is logged as a warning and not raised: the call ends
  as the call without \<open>schema_json_path\<close> ends, leaves the same dictionaries behind and
  makes the same calls after the attempt to read the schema. The call writes no
  \<open>schema\<close> key: under that key the configuration holds what the caller's
  \<open>config_params\<close> held, and nothing if it held nothing.
\<close>

theorem upload_gcs_json_unparsable_schema:
  assumes "path \<noteq> []" and "client_schema_from_json sdk path = Inl e"
  shows "fst (upload_gcs_json sdk b bl p d t af iu ad (Some path) aw cpa jpa st)
       = fst (upload_gcs_json sdk b bl p d t af iu ad None aw cpa jpa st)
     \<and> heap (snd (upload_gcs_json sdk b bl p d t af iu ad (Some path) aw cpa jpa st))
       = heap (snd (upload_gcs_json sdk b bl p d t af iu ad None aw cpa jpa st))
     \<and> new_calls st (snd (upload_gcs_json sdk b bl p d t af iu ad (Some path) aw cpa jpa st))
       = SchemaFromJson path
         # new_calls st (snd (upload_gcs_json sdk b bl p d t af iu ad None aw cpa jpa st))
     \<and> (WARNING, [Lit (''Failed to build schema: '' @ class_name (exc_class e)
                        @ '': '' @ exc_str e)])
       \<in> set (logged (snd (upload_gcs_json sdk b bl p d t af iu ad (Some path) aw cpa jpa st)))
     \<and> map_of (heap (snd (upload_gcs_json sdk b bl p d t af iu ad (Some path) aw cpa jpa st))
               (arg_or_default cpa upload_gcs_json_default_config_params)) ''schema''
       = map_of (heap st (arg_or_default cpa upload_gcs_json_default_config_params)) ''schema''
     \<and> (\<forall>kw. NewLoadJobConfig kw \<in> set (new_calls st
                 (snd (upload_gcs_json sdk b bl p d t af iu ad (Some path) aw cpa jpa st)))
           \<longrightarrow> map_of kw ''schema''
               = map_of (heap st (arg_or_default cpa upload_gcs_json_default_config_params))
                   ''schema'')"
proof -
  note failed = upload_failed_schema [OF assms, of b bl p d t af iu ad aw cpa jpa st]
  note plain = upload_from_fresh [of sdk b bl p d t af iu ad None aw cpa jpa st]
  have same_fst: "fst (upload_gcs_json sdk b bl p d t af iu ad (Some path) aw cpa jpa st)
       = fst (upload_gcs_json sdk b bl p d t af iu ad None aw cpa jpa st)"
    by (simp add: failed) (simp add: plain)
  have same_heap: "heap (snd (upload_gcs_json sdk b bl p d t af iu ad (Some path) aw cpa jpa st))
       = heap (snd (upload_gcs_json sdk b bl p d t af iu ad None aw cpa jpa st))"
    by (simp add: failed) (simp add: plain)
  have same_calls:
    "new_calls st (snd (upload_gcs_json sdk b bl p d t af iu ad (Some path) aw cpa jpa st))
       = SchemaFromJson path
         # new_calls st (snd (upload_gcs_json sdk b bl p d t af iu ad None aw cpa jpa st))"
    by (simp add: failed new_calls_def) (simp add: plain)
  have warned: "(WARNING, [Lit (''Failed to build schema: '' @ class_name (exc_class e)
                        @ '': '' @ exc_str e)])
       \<in> set (logged (snd (upload_gcs_json sdk b bl p d t af iu ad (Some path) aw cpa jpa st)))"
    by (simp add: failed)
  have kept: "map_of (heap (snd (upload_gcs_json sdk b bl p d t af iu ad (Some path) aw cpa jpa st))
               (arg_or_default cpa upload_gcs_json_default_config_params)) ''schema''
       = map_of (heap st (arg_or_default cpa upload_gcs_json_default_config_params)) ''schema''"
    by (simp add: same_heap upload_heap_frame config_schema_kept)
  have passed: "map_of kw ''schema''
       = map_of (heap st (arg_or_default cpa upload_gcs_json_default_config_params)) ''schema''"
    if "NewLoadJobConfig kw \<in> set (new_calls st
          (snd (upload_gcs_json sdk b bl p d t af iu ad (Some path) aw cpa jpa st)))" for kw
  proof -
    from that have "NewLoadJobConfig kw \<in> set (new_calls st
          (snd (upload_gcs_json sdk b bl p d t af iu ad None aw cpa jpa st)))"
      by (simp add: same_calls)
    from upload_config_kwargs [OF this] show ?thesis
      by (auto simp: config_schema_kept)
  qed
  from same_fst same_heap same_calls warned kept passed show ?thesis
    by blast
qed

theorem upload_gcs_json_unparsable_schema_witness:
  "''missing.json'' \<noteq> []
   \<and> client_schema_from_json example_sdk ''missing.json''
       = Inl (PyExc (OtherException ''FileNotFoundError'') ''missing.json'')
   \<and> fst example_failed_schema = fst example_upload
   \<and> heap (snd example_failed_schema) = heap (snd example_upload)
   \<and> new_calls example_state (snd example_failed_schema)
       = SchemaFromJson ''missing.json'' # new_calls example_state (snd example_upload)
   \<and> map_of (heap (snd example_failed_schema)
              (arg_or_default (Some 5) upload_gcs_json_default_config_params)) ''schema''
       = map_of (heap example_state
                  (arg_or_default (Some 5) upload_gcs_json_default_config_params)) ''schema''"
proof -
  have path: "''missing.json'' \<noteq> []"
    by simp
  note run = upload_gcs_json_unparsable_schema [OF path example_lookups(3), of "''bucket''"
      "''data.json''" "''proj''" "''ds''" "''events''" True True False True "Some 5" "Some 6"
      example_state]
  note same_fst = run [THEN conjunct1]
  note same_heap = run [THEN conjunct2, THEN conjunct1]
  note same_calls = run [THEN conjunct2, THEN conjunct2, THEN conjunct1]
  note kept = run [THEN conjunct2, THEN conjunct2, THEN conjunct2, THEN conjunct2, THEN conjunct1]
  show ?thesis
    by (rule conjI [OF path conjI [OF example_lookups(3) conjI [OF same_fst
          conjI [OF same_heap conjI [OF same_calls kept]]]]])
qed

text \<open>
  Claim C4 as stated fails: the caller's \<open>config_params\<close> at address 5 holds a \<open>schema\<close>
  key, the schema file \<open>missing.json\<close> cannot be read, the load is submitted, and the
  configuration from which the job configuration is built has that \<open>schema\<close> key.
\<close>

theorem upload_gcs_json_unparsable_schema_counterexample:
  "client_schema_from_json example_sdk ''missing.json''
     = Inl (PyExc (OtherException ''FileNotFoundError'') ''missing.json'')
   \<and> fst example_failed_schema = Inr ()
   \<and> NewLoadJobConfig example_config \<in> set (new_calls example_state (snd example_failed_schema))
   \<and> heap (snd example_failed_schema) 5 = example_config
   \<and> map_of example_config ''schema'' = Some (PList [PStr ''old''])"
  by (simp add: example_lookups example_failed_schema_fst example_failed_schema_calls
        example_failed_schema_heap)
     (simp add: example_config_def)

text \<open>
  Claim C9. \<open>upload_gcs_json\<close> writes into the dictionaries it is given as
  \<open>config_params\<close> and \<open>job_params\<close>, and into no other; \<open>query\<close> writes the priority
  into the dictionary it is given as \<open>query_config\<close>. The default dictionaries are the
  same from call to call: a schema read during one call with the default
  \<open>config_params\<close> is in the configuration of a later call with the default
  \<open>config_params\<close> and no schema path, and the batch priority written during one call
  with the default \<open>query_config\<close> is in the configuration of a later call with the
  default \<open>query_config\<close>, also when that call waits for its result.
\<close>

theorem default_dictionaries_shared:
  assumes "st1 = snd (upload_gcs_json sdk b bl p d t af iu ad sp aw cpa jpa st)"
    and "st2 = snd (upload_gcs_json sdk' b' bl' p' d' t' af' iu' ad' None aw' None None st1)"
    and "st3 = snd (query sdk q qca False st)"
    and "st4 = snd (query sdk' q' None True st3)"
  shows "(\<forall>a. a \<noteq> arg_or_default cpa upload_gcs_json_default_config_params
            \<and> a \<noteq> arg_or_default jpa upload_gcs_json_default_job_params
            \<longrightarrow> heap st1 a = heap st a)
     \<and> map_of (heap st1 (arg_or_default cpa upload_gcs_json_default_config_params))
          ''autodetect'' = Some (PBool ad)
     \<and> map_of (heap st1 (arg_or_default jpa upload_gcs_json_default_job_params))
          ''source_uris'' = Some (PStr (''gs://'' @ b @ ''/'' @ bl))
     \<and> (\<not> dict_contains ''priority'' (heap st (arg_or_default qca query_default_query_config))
          \<longrightarrow> heap st3 = (heap st)(arg_or_default qca query_default_query_config :=
                  AList.update ''priority'' (PStr ''BATCH'')
                    (heap st (arg_or_default qca query_default_query_config))))
     \<and> (\<forall>path s. cpa = None \<and> sp = Some path \<and> path \<noteq> []
            \<and> client_schema_from_json sdk path = Inr s
          \<longrightarrow> map_of (heap st1 upload_gcs_json_default_config_params) ''schema'' = Some s
            \<and> map_of (heap st2 upload_gcs_json_default_config_params) ''schema'' = Some s
            \<and> (\<forall>kw. NewLoadJobConfig kw \<in> set (new_calls st1 st2)
                  \<longrightarrow> map_of kw ''schema'' = Some s))
     \<and> (qca = None \<and> \<not> dict_contains ''priority'' (heap st query_default_query_config)
          \<longrightarrow> map_of (heap st4 query_default_query_config) ''priority'' = Some (PStr ''BATCH'')
            \<and> NewQueryJobConfig (heap st4 query_default_query_config) \<in> set (new_calls st3 st4))"
proof -
  have c1: "\<forall>a. a \<noteq> arg_or_default cpa upload_gcs_json_default_config_params
            \<and> a \<noteq> arg_or_default jpa upload_gcs_json_default_job_params
            \<longrightarrow> heap st1 a = heap st a"
    unfolding assms(1) by (simp add: upload_heap_other)
  have c2: "map_of (heap st1 (arg_or_default cpa upload_gcs_json_default_config_params))
          ''autodetect'' = Some (PBool ad)"
    unfolding assms(1) by (simp add: upload_heap_frame config_ad)
  have c3: "map_of (heap st1 (arg_or_default jpa upload_gcs_json_default_job_params))
          ''source_uris'' = Some (PStr (''gs://'' @ b @ ''/'' @ bl))"
    unfolding assms(1) by (rule upload_source_uris)
  have c4: "\<not> dict_contains ''priority'' (heap st (arg_or_default qca query_default_query_config))
          \<longrightarrow> heap st3 = (heap st)(arg_or_default qca query_default_query_config :=
                  AList.update ''priority'' (PStr ''BATCH'')
                    (heap st (arg_or_default qca query_default_query_config)))"
    unfolding assms(3) by (simp add: query_heap)
  have c5: "\<forall>path s. cpa = None \<and> sp = Some path \<and> path \<noteq> []
            \<and> client_schema_from_json sdk path = Inr s
          \<longrightarrow> map_of (heap st1 upload_gcs_json_default_config_params) ''schema'' = Some s
            \<and> map_of (heap st2 upload_gcs_json_default_config_params) ''schema'' = Some s
            \<and> (\<forall>kw. NewLoadJobConfig kw \<in> set (new_calls st1 st2)
                  \<longrightarrow> map_of kw ''schema'' = Some s)"
  proof (intro allI impI)
    fix path s
    assume a: "cpa = None \<and> sp = Some path \<and> path \<noteq> []
            \<and> client_schema_from_json sdk path = Inr s"
    then have s1: "map_of (heap st1 upload_gcs_json_default_config_params) ''schema'' = Some s"
      unfolding assms(1)
      using upload_heap_frame [of "''schema''" sdk b bl p d t af iu ad sp aw cpa jpa st
          upload_gcs_json_default_config_params]
        config_schema_set [of path sdk s af iu ad upload_gcs_json_default_config_params st]
      by (simp add: arg_or_default_def)
    have s2: "map_of (heap st2 upload_gcs_json_default_config_params) ''schema'' = Some s"
      unfolding assms(2)
      using upload_heap_frame [of "''schema''" sdk' b' bl' p' d' t' af' iu' ad' None aw' None None
          st1 upload_gcs_json_default_config_params] s1
      by (simp add: config_schema_kept)
    have s3: "\<forall>kw. NewLoadJobConfig kw \<in> set (new_calls st1 st2)
        \<longrightarrow> map_of kw ''schema'' = Some s"
    proof (intro allI impI)
      fix kw
      assume "NewLoadJobConfig kw \<in> set (new_calls st1 st2)"
      then have "NewLoadJobConfig kw \<in> set (new_calls st1
          (snd (upload_gcs_json sdk' b' bl' p' d' t' af' iu' ad' None aw' None None st1)))"
        by (simp only: assms(2))
      from upload_config_kwargs [OF this] s1 show "map_of kw ''schema'' = Some s"
        by (auto simp: config_schema_kept arg_or_default_def)
    qed
    show "map_of (heap st1 upload_gcs_json_default_config_params) ''schema'' = Some s
            \<and> map_of (heap st2 upload_gcs_json_default_config_params) ''schema'' = Some s
            \<and> (\<forall>kw. NewLoadJobConfig kw \<in> set (new_calls st1 st2)
                  \<longrightarrow> map_of kw ''schema'' = Some s)"
      by (rule conjI [OF s1 conjI [OF s2 s3]])
  qed
  have c6: "qca = None \<and> \<not> dict_contains ''priority'' (heap st query_default_query_config)
          \<longrightarrow> map_of (heap st4 query_default_query_config) ''priority'' = Some (PStr ''BATCH'')
            \<and> NewQueryJobConfig (heap st4 query_default_query_config) \<in> set (new_calls st3 st4)"
  proof (intro impI)
    assume a: "qca = None \<and> \<not> dict_contains ''priority'' (heap st query_default_query_config)"
    then have h3: "map_of (heap st3 query_default_query_config) ''priority'' = Some (PStr ''BATCH'')"
      unfolding assms(3) by (simp add: query_heap arg_or_default_def)
    have h4: "heap st4 = heap st3"
      unfolding assms(4) by (simp add: query_heap)
    from h3 h4 have p4: "map_of (heap st4 query_default_query_config) ''priority''
        = Some (PStr ''BATCH'')"
      by simp
    from h3 have ne: "heap st3 query_default_query_config \<noteq> []"
      by auto
    have "new_calls st3 st4 =
       (let d = heap st4 (arg_or_default None query_default_query_config)
        in (if d = [] then [] else [NewQueryJobConfig d])
           @ (case (if d = [] then Inr PNone else bigquery_QueryJobConfig sdk' d) of
                Inl e \<Rightarrow> []
              | Inr c \<Rightarrow> Query q' c #
                  (case client_query sdk' q' c of
                     Inl e \<Rightarrow> []
                   | Inr job \<Rightarrow> if True then [JobResult] else [])))"
      unfolding assms(4) by (rule query_calls)
    with ne h4 have "NewQueryJobConfig (heap st4 query_default_query_config)
        \<in> set (new_calls st3 st4)"
      by (simp add: Let_def arg_or_default_def)
    with p4 show "map_of (heap st4 query_default_query_config) ''priority'' = Some (PStr ''BATCH'')
            \<and> NewQueryJobConfig (heap st4 query_default_query_config) \<in> set (new_calls st3 st4)"
      by (rule conjI)
  qed
  show ?thesis
    by (rule conjI [OF c1 conjI [OF c2 conjI [OF c3 conjI [OF c4 conjI [OF c5 c6]]]]])
qed

theorem default_dictionaries_shared_witness:
  "(5 \<noteq> arg_or_default None upload_gcs_json_default_config_params
      \<and> 5 \<noteq> arg_or_default None upload_gcs_json_default_job_params)
   \<and> heap (snd example_first_upload) 5 = heap example_state 5
   \<and> \<not> dict_contains ''priority'' (heap example_state query_default_query_config)
   \<and> client_schema_from_json example_sdk ''schema.json'' = Inr (PList [PStr ''id'', PStr ''name''])
   \<and> map_of (heap example_state upload_gcs_json_default_config_params) ''schema'' = None
   \<and> map_of (heap (snd example_second_upload) upload_gcs_json_default_config_params) ''schema''
       = Some (PList [PStr ''id'', PStr ''name''])
   \<and> NewLoadJobConfig example_second_config
       \<in> set (new_calls (snd example_first_upload) (snd example_second_upload))
   \<and> map_of example_second_config ''schema'' = Some (PList [PStr ''id'', PStr ''name''])
   \<and> map_of (heap (snd example_second_query) query_default_query_config) ''priority''
       = Some (PStr ''BATCH'')
   \<and> NewQueryJobConfig (heap (snd example_second_query) query_default_query_config)
       \<in> set (new_calls (snd example_batch_query) (snd example_second_query))"
proof -
  note run = default_dictionaries_shared [where sdk = example_sdk and b = "''bucket''"
      and bl = "''data.json''" and p = "''proj''" and d = "''ds''" and t = "''events''"
      and af = True and iu = True and ad = False and sp = "Some ''schema.json''" and aw = True
      and cpa = None and jpa = None and st = example_state
      and sdk' = example_sdk and b' = "''bucket''" and bl' = "''more.json''" and p' = "''proj''"
      and d' = "''ds''" and t' = "''events''" and af' = True and iu' = True and ad' = False
      and aw' = True and q = "''DELETE FROM t WHERE id = 0''" and qca = None
      and q' = "''SELECT id, name FROM t''", OF refl refl refl refl]
  have other: "5 \<noteq> arg_or_default None upload_gcs_json_default_config_params
      \<and> 5 \<noteq> arg_or_default None upload_gcs_json_default_job_params"
    by (simp add: arg_or_default_def upload_gcs_json_default_config_params_def
          upload_gcs_json_default_job_params_def)
  have absent: "\<not> dict_contains ''priority'' (heap example_state query_default_query_config)"
    by (simp add: example_state_def query_default_query_config_def dict_contains_def)
  have empty: "map_of (heap example_state upload_gcs_json_default_config_params) ''schema'' = None"
    by (simp add: example_state_def upload_gcs_json_default_config_params_def)
  have given: "None = None \<and> Some ''schema.json'' = Some ''schema.json'' \<and> ''schema.json'' \<noteq> []
      \<and> client_schema_from_json example_sdk ''schema.json'' = Inr (PList [PStr ''id'', PStr ''name''])"
    by (simp add: example_lookups)
  note untouched = run [THEN conjunct1, THEN spec, THEN mp, OF other]
  note schema = run [THEN conjunct2, THEN conjunct2, THEN conjunct2, THEN conjunct2,
      THEN conjunct1, THEN spec, THEN spec, THEN mp, OF given]
  note passed = schema [THEN conjunct2, THEN conjunct2, THEN spec, THEN mp,
      OF example_second_upload_calls]
  note priority = run [THEN conjunct2, THEN conjunct2, THEN conjunct2, THEN conjunct2,
      THEN conjunct2, THEN mp, OF conjI [OF refl absent]]
  show ?thesis
    by (rule conjI [OF other conjI [OF untouched conjI [OF absent
          conjI [OF example_lookups(4) conjI [OF empty
          conjI [OF schema [THEN conjunct2, THEN conjunct1]
          conjI [OF example_second_upload_calls conjI [OF passed priority]]]]]]]])
qed

end
